theory Spec2Isabelle
  imports Main
begin

section \<open>JavaScript values\<close>

text \<open>
  The binding engine (\<^verbatim>\<open>Binding\<close>, \<^verbatim>\<open>Binding.Bound\<close> and the formatting helpers) works on
  untyped JavaScript values. The embedding gives them a datatype.

  Numbers: a double is modelled by the value it denotes, a decimal fraction
  \<open>Dec m k\<close> \<open>= m / 10 ^ k\<close>, next to \<open>NaN\<close>, the two infinities and the negative zero
  (\<open>Dec 0 k\<close> is the positive zero). The arithmetic below is exact: the binary rounding
  and the range of doubles are not part of the model.
\<close>

datatype jsnum = NaN | PosInf | NegInf | NegZero | Dec int nat

text \<open>
  Objects carry an address (their identity, which \<^verbatim>\<open>===\<close> compares) and the table of the
  properties that can be read on them by name, own or inherited. \<open>okind\<close> says which
  \<^verbatim>\<open>toString\<close> the object has: \<open>Plain\<close> is \<^verbatim>\<open>Object.prototype.toString\<close>, \<open>Custom s\<close> a
  method of its own that returns \<open>s\<close>. \<open>JArr\<close> is a genuine array (its \<^verbatim>\<open>toString\<close> and
  \<^verbatim>\<open>map\<close> are those of \<^verbatim>\<open>Array.prototype\<close>). \<open>JFun a t\<close> is a native or bound function
  that, called with a string key, returns the entry of the table \<open>t\<close> (and
  \<^verbatim>\<open>undefined\<close> where there is none), which is what a map's \<^verbatim>\<open>get\<close> method does.
\<close>

datatype okind = Plain | Custom string

datatype jsval =
    JUndefined
  | JNull
  | JBool bool
  | JNum jsnum
  | JStr string
  | JArr nat "jsval list"
  | JObj nat okind "(string \<times> jsval) list"
  | JFun nat "(string \<times> jsval) list"

subsection \<open>Errors and effects\<close>

text \<open>
  \<^verbatim>\<open>err(error, s)\<close> of errors.ts builds an \<^verbatim>\<open>Error\<close> from the message table; the model
  keeps the code and the argument. \<open>TypeError\<close> and \<open>RangeError\<close> are the
  language's own. Only the codes of the binding engine are listed.
\<close>

datatype ERROR =
    Binding_UnknownFilter
  | Binding_NotABinding
  | Binding_NotFound
  | Binding_ParentNotFound
  | Binding_NoComponent
  | Binding_ObjectType

datatype exn = Err ERROR "string option" | Error string | TypeError | RangeError

definition err :: "ERROR \<Rightarrow> string option \<Rightarrow> exn" where
  "err error s = Err error s"

text \<open>
  What a call does besides returning: errors handed to \<^verbatim>\<open>logUnhandledException\<close>, reads of
  a reader, and calls of a component's update hook (component, value), in the order they
  happen. A function returns the events it caused.
\<close>

datatype event = Unhandled exn | ReaderRead "jsval option" | Update nat jsval

subsection \<open>Numbers and strings\<close>

text \<open>A decimal fraction without trailing zeros in its fraction digits.\<close>

fun norm_dec :: "int \<Rightarrow> nat \<Rightarrow> jsnum" where
  "norm_dec m k =
     (if k = 0 then Dec m 0
      else if m mod 10 = 0 then norm_dec (m div 10) (k - 1)
      else Dec m k)"

declare norm_dec.simps [simp del]

definition digit_char :: "nat \<Rightarrow> char" where
  "digit_char d = ''0123456789'' ! d"

fun digits :: "nat \<Rightarrow> string" where
  "digits n = (if n < 10 then [digit_char n] else digits (n div 10) @ [digit_char (n mod 10)])"

declare digits.simps [simp del]

definition digit_val :: "char \<Rightarrow> nat option" where
  "digit_val c = map_of
     [(CHR ''0'', 0), (CHR ''1'', 1), (CHR ''2'', 2), (CHR ''3'', 3), (CHR ''4'', 4),
      (CHR ''5'', 5), (CHR ''6'', 6), (CHR ''7'', 7), (CHR ''8'', 8), (CHR ''9'', 9)] c"

definition hex_val :: "char \<Rightarrow> nat option" where
  "hex_val c = (case digit_val c of
       Some d \<Rightarrow> Some d
     | None \<Rightarrow> map_of
         [(CHR ''a'', 10), (CHR ''b'', 11), (CHR ''c'', 12), (CHR ''d'', 13), (CHR ''e'', 14),
          (CHR ''f'', 15), (CHR ''A'', 10), (CHR ''B'', 11), (CHR ''C'', 12), (CHR ''D'', 13),
          (CHR ''E'', 14), (CHR ''F'', 15)] c)"

definition is_digit :: "char \<Rightarrow> bool" where
  "is_digit c = (digit_val c \<noteq> None)"

text \<open>The value of a digit string in a base, most significant digit first.\<close>

definition digits_value :: "nat \<Rightarrow> (char \<Rightarrow> nat option) \<Rightarrow> string \<Rightarrow> nat" where
  "digits_value base dv cs = foldl (\<lambda>acc c. acc * base + (case dv c of Some d \<Rightarrow> d | None \<Rightarrow> 0)) 0 cs"

text \<open>White space and line terminators, as \<^verbatim>\<open>trim\<close> and the numeric parsers skip them.\<close>

definition is_ws :: "char \<Rightarrow> bool" where
  "is_ws c = ((of_char c :: nat) \<in> {9, 10, 11, 12, 13, 32, 160})"

definition trimStart :: "string \<Rightarrow> string" where
  "trimStart s = dropWhile is_ws s"

definition trim :: "string \<Rightarrow> string" where
  "trim s = rev (dropWhile is_ws (rev (dropWhile is_ws s)))"

fun starts_with :: "string \<Rightarrow> string \<Rightarrow> bool" where
  "starts_with [] s = True"
| "starts_with (p # ps) [] = False"
| "starts_with (p # ps) (c # cs) = (p = c \<and> starts_with ps cs)"

fun join :: "string \<Rightarrow> string list \<Rightarrow> string" where
  "join sep [] = []"
| "join sep [x] = x"
| "join sep (x # y # ys) = x @ sep @ join sep (y # ys)"

text \<open>
  \<^verbatim>\<open>Number::toString\<close> (radix 10) of the language: with \<open>s\<close> the digits of the number
  without trailing zeros, \<open>k\<close> their count and \<open>n\<close> the position of the decimal point, the
  number is printed plainly when \<open>-6 < n \<le> 21\<close> and with an exponent otherwise.
\<close>

definition Number_toString :: "jsnum \<Rightarrow> string" where
  "Number_toString x = (case x of
       NaN \<Rightarrow> ''NaN''
     | PosInf \<Rightarrow> ''Infinity''
     | NegInf \<Rightarrow> ''-Infinity''
     | NegZero \<Rightarrow> ''0''
     | Dec m sc \<Rightarrow>
         if m = 0 then ''0''
         else
           let ds0 = digits (nat \<bar>m\<bar>);
               ds = rev (dropWhile (\<lambda>c. c = CHR ''0'') (rev ds0));
               k = length ds;
               n = int (length ds0) - int sc;
               body =
                 (if int k \<le> n \<and> n \<le> 21 then ds @ replicate (nat (n - int k)) (CHR ''0'')
                  else if 0 < n \<and> n \<le> 21 then take (nat n) ds @ ''.'' @ drop (nat n) ds
                  else if -6 < n \<and> n \<le> 0 then ''0.'' @ replicate (nat (- n)) (CHR ''0'') @ ds
                  else
                    let e = n - 1;
                        es = (if e < 0 then ''-'' else ''+'') @ digits (nat \<bar>e\<bar>)
                    in if k = 1 then ds @ ''e'' @ es
                       else [hd ds] @ ''.'' @ tl ds @ ''e'' @ es)
           in (if m < 0 then ''-'' else '''') @ body)"

text \<open>
  A number from its sign, its digits and a decimal exponent: \<open>\<plusminus> a * 10 ^ e\<close>.
\<close>

definition mk_num :: "bool \<Rightarrow> nat \<Rightarrow> int \<Rightarrow> jsnum" where
  "mk_num neg a e =
     (if a = 0 then (if neg then NegZero else Dec 0 0)
      else
        let m = (if neg then - int a else int a)
        in if 0 \<le> e then Dec (m * 10 ^ nat e) 0 else norm_dec m (nat (- e)))"

text \<open>
  The longest prefix of a string that is a \<^verbatim>\<open>StrDecimalLiteral\<close> (sign, \<^verbatim>\<open>Infinity\<close> or
  digits with an optional fraction and exponent), with its value and the rest of the
  string; \<open>None\<close> when no prefix is one.
\<close>

definition parse_exponent :: "string \<Rightarrow> int \<times> string" where
  "parse_exponent s = (case s of
       [] \<Rightarrow> (0, s)
     | c # t \<Rightarrow>
         if c = CHR ''e'' \<or> c = CHR ''E'' then
           (let neg = starts_with ''-'' t;
                t' = (if starts_with ''-'' t \<or> starts_with ''+'' t then tl t else t);
                ed = takeWhile is_digit t'
            in if ed = [] then (0, s)
               else ((if neg then - int (digits_value 10 digit_val ed)
                      else int (digits_value 10 digit_val ed)),
                     dropWhile is_digit t'))
         else (0, s))"

definition parse_decimal :: "string \<Rightarrow> (jsnum \<times> string) option" where
  "parse_decimal s =
     (let neg = starts_with ''-'' s;
          s1 = (if starts_with ''-'' s \<or> starts_with ''+'' s then tl s else s)
      in if starts_with ''Infinity'' s1 then Some ((if neg then NegInf else PosInf), drop 8 s1)
         else
           let ip = takeWhile is_digit s1;
               r1 = dropWhile is_digit s1;
               fp = (if starts_with ''.'' r1 then takeWhile is_digit (tl r1) else []);
               r2 = (if starts_with ''.'' r1 then dropWhile is_digit (tl r1) else r1)
           in if ip = [] \<and> fp = [] then None
              else
                let ex = parse_exponent r2
                in Some (mk_num neg (digits_value 10 digit_val (ip @ fp))
                           (fst ex - int (length fp)), snd ex))"

text \<open>\<^verbatim>\<open>parseFloat\<close> on a string, and \<^verbatim>\<open>StringToNumber\<close> (what unary plus does to a string).\<close>

definition parseFloat_str :: "string \<Rightarrow> jsnum" where
  "parseFloat_str s = (case parse_decimal (trimStart s) of Some (v, r) \<Rightarrow> v | None \<Rightarrow> NaN)"

definition radix_literal :: "string \<Rightarrow> jsnum option" where
  "radix_literal t =
     (let p = take 2 t; ds = drop 2 t
      in if p = ''0x'' \<or> p = ''0X'' then
           (if ds \<noteq> [] \<and> list_all (\<lambda>c. hex_val c \<noteq> None) ds
            then Some (Dec (int (digits_value 16 hex_val ds)) 0) else Some NaN)
         else if p = ''0o'' \<or> p = ''0O'' then
           (if ds \<noteq> [] \<and> list_all (\<lambda>c. c \<in> set ''01234567'') ds
            then Some (Dec (int (digits_value 8 digit_val ds)) 0) else Some NaN)
         else if p = ''0b'' \<or> p = ''0B'' then
           (if ds \<noteq> [] \<and> list_all (\<lambda>c. c \<in> set ''01'') ds
            then Some (Dec (int (digits_value 2 digit_val ds)) 0) else Some NaN)
         else None)"

definition StringToNumber :: "string \<Rightarrow> jsnum" where
  "StringToNumber s =
     (let t = trim s
      in if t = [] then Dec 0 0
         else (case radix_literal t of
             Some v \<Rightarrow> v
           | None \<Rightarrow> (case parse_decimal t of
                 Some (v, r) \<Rightarrow> (if r = [] then v else NaN)
               | None \<Rightarrow> NaN)))"

subsection \<open>Arithmetic on numbers\<close>

definition num_gt0 :: "jsnum \<Rightarrow> bool" where
  "num_gt0 x = (case x of PosInf \<Rightarrow> True | Dec m k \<Rightarrow> 0 < m | _ \<Rightarrow> False)"

definition num_lt0 :: "jsnum \<Rightarrow> bool" where
  "num_lt0 x = (case x of NegInf \<Rightarrow> True | Dec m k \<Rightarrow> m < 0 | _ \<Rightarrow> False)"

definition is_zero :: "jsnum \<Rightarrow> bool" where
  "is_zero x = (case x of NegZero \<Rightarrow> True | Dec m k \<Rightarrow> m = 0 | _ \<Rightarrow> False)"

text \<open>Equality of numbers as \<^verbatim>\<open>===\<close> has it: \<open>NaN\<close> equals nothing, the two zeros are equal.\<close>

fun num_eq :: "jsnum \<Rightarrow> jsnum \<Rightarrow> bool" where
  "num_eq NaN y = False"
| "num_eq x NaN = False"
| "num_eq PosInf y = (y = PosInf)"
| "num_eq NegInf y = (y = NegInf)"
| "num_eq NegZero y = is_zero y"
| "num_eq (Dec m k) (Dec m' k') = (m * 10 ^ k' = m' * 10 ^ k)"
| "num_eq (Dec m k) y = (m = 0 \<and> y = NegZero)"

fun num_add :: "jsnum \<Rightarrow> jsnum \<Rightarrow> jsnum" where
  "num_add NaN y = NaN"
| "num_add x NaN = NaN"
| "num_add PosInf NegInf = NaN"
| "num_add NegInf PosInf = NaN"
| "num_add PosInf y = PosInf"
| "num_add x PosInf = PosInf"
| "num_add NegInf y = NegInf"
| "num_add x NegInf = NegInf"
| "num_add NegZero y = y"
| "num_add x NegZero = x"
| "num_add (Dec m k) (Dec m' k') =
     norm_dec (m * 10 ^ (max k k' - k) + m' * 10 ^ (max k k' - k')) (max k k')"

text \<open>
  \<^verbatim>\<open>Math.round\<close>: the integer nearest to the number, a tie going up; a result of zero keeps
  the sign of a negative argument.
\<close>

definition Math_round :: "jsnum \<Rightarrow> jsnum" where
  "Math_round x = (case x of
       Dec m k \<Rightarrow>
         (let n = (2 * m + 10 ^ k) div (2 * 10 ^ k)
          in if n = 0 \<and> m < 0 then NegZero else Dec n 0)
     | _ \<Rightarrow> x)"

definition ToIntegerOrInfinity :: "jsnum \<Rightarrow> int option" where
  "ToIntegerOrInfinity x = (case x of
       NaN \<Rightarrow> Some 0
     | NegZero \<Rightarrow> Some 0
     | PosInf \<Rightarrow> None
     | NegInf \<Rightarrow> None
     | Dec m k \<Rightarrow> Some (if m < 0 then - ((- m) div 10 ^ k) else m div 10 ^ k))"

text \<open>
  \<^verbatim>\<open>Number.prototype.toFixed\<close>: the digits of the integer \<open>n\<close> nearest to \<open>x * 10 ^ f\<close> (the
  larger of two), with the decimal point before the last \<open>f\<close> of them.
\<close>

definition fixed_digits :: "nat \<Rightarrow> nat \<Rightarrow> nat \<Rightarrow> string" where
  "fixed_digits a k f =
     (let n = (2 * a * 10 ^ f + 10 ^ k) div (2 * 10 ^ k);
          m = digits n
      in if f = 0 then m
         else
           let z = (if length m \<le> f then replicate (f + 1 - length m) (CHR ''0'') @ m else m)
           in take (length z - f) z @ ''.'' @ drop (length z - f) z)"

definition toFixed :: "jsnum \<Rightarrow> jsnum \<Rightarrow> exn + string" where
  "toFixed x fractionDigits = (case ToIntegerOrInfinity fractionDigits of
       None \<Rightarrow> Inl RangeError
     | Some f \<Rightarrow>
         if f < 0 \<or> 100 < f then Inl RangeError
         else (case x of
             Dec m k \<Rightarrow>
               if 10 ^ 21 * 10 ^ k \<le> \<bar>m\<bar> then Inr (Number_toString x)
               else Inr ((if m < 0 then ''-'' else []) @ fixed_digits (nat \<bar>m\<bar>) k (nat f))
           | NegZero \<Rightarrow> Inr (fixed_digits 0 0 (nat f))
           | _ \<Rightarrow> Inr (Number_toString x)))"

subsection \<open>Conversions between values\<close>

text \<open>
  \<^verbatim>\<open>ToString\<close>, \<^verbatim>\<open>ToNumber\<close> and \<^verbatim>\<open>ToBoolean\<close> of the language. An object converts through
  its \<^verbatim>\<open>toString\<close> (its \<^verbatim>\<open>valueOf\<close> is \<^verbatim>\<open>Object.prototype\<close>'s and returns the object); an
  array joins its elements with a comma, \<^verbatim>\<open>undefined\<close> and \<^verbatim>\<open>null\<close> as the empty string.
\<close>

fun ToString :: "jsval \<Rightarrow> string" where
  "ToString JUndefined = ''undefined''"
| "ToString JNull = ''null''"
| "ToString (JBool b) = (if b then ''true'' else ''false'')"
| "ToString (JNum x) = Number_toString x"
| "ToString (JStr s) = s"
| "ToString (JArr a xs) =
     join '','' (map (\<lambda>x. if x = JUndefined \<or> x = JNull then [] else ToString x) xs)"
| "ToString (JObj a k ps) = (case k of Plain \<Rightarrow> ''[object Object]'' | Custom s \<Rightarrow> s)"
| "ToString (JFun a t) = ''function () { [native code] }''"

text \<open>
  \<^verbatim>\<open>Array.prototype.join\<close> with a separator, and the function \<^verbatim>\<open>String\<close> applied to a
  value.
\<close>

definition Array_join :: "string \<Rightarrow> jsval list \<Rightarrow> string" where
  "Array_join sep xs =
     join sep (map (\<lambda>x. if x = JUndefined \<or> x = JNull then [] else ToString x) xs)"

definition String_fn :: "jsval \<Rightarrow> jsval" where
  "String_fn v = JStr (ToString v)"

definition ToNumber :: "jsval \<Rightarrow> jsnum" where
  "ToNumber v = (case v of
       JUndefined \<Rightarrow> NaN
     | JNull \<Rightarrow> Dec 0 0
     | JBool b \<Rightarrow> (if b then Dec 1 0 else Dec 0 0)
     | JNum x \<Rightarrow> x
     | JStr s \<Rightarrow> StringToNumber s
     | _ \<Rightarrow> StringToNumber (ToString v))"

definition ToBoolean :: "jsval \<Rightarrow> bool" where
  "ToBoolean v = (case v of
       JUndefined \<Rightarrow> False
     | JNull \<Rightarrow> False
     | JBool b \<Rightarrow> b
     | JNum x \<Rightarrow> \<not> (x = NaN \<or> is_zero x)
     | JStr s \<Rightarrow> s \<noteq> []
     | _ \<Rightarrow> True)"

definition typeof :: "jsval \<Rightarrow> string" where
  "typeof v = (case v of
       JUndefined \<Rightarrow> ''undefined''
     | JNull \<Rightarrow> ''object''
     | JBool b \<Rightarrow> ''boolean''
     | JNum x \<Rightarrow> ''number''
     | JStr s \<Rightarrow> ''string''
     | JArr a xs \<Rightarrow> ''object''
     | JObj a k ps \<Rightarrow> ''object''
     | JFun a t \<Rightarrow> ''function'')"

text \<open>\<^verbatim>\<open>a === b\<close>: primitives by value, objects, arrays and functions by identity.\<close>

fun strict_eq :: "jsval \<Rightarrow> jsval \<Rightarrow> bool" where
  "strict_eq JUndefined w = (w = JUndefined)"
| "strict_eq JNull w = (w = JNull)"
| "strict_eq (JBool b) w = (w = JBool b)"
| "strict_eq (JNum x) (JNum y) = num_eq x y"
| "strict_eq (JStr s) w = (w = JStr s)"
| "strict_eq (JArr a xs) (JArr b ys) = (a = b)"
| "strict_eq (JObj a k ps) (JObj b l qs) = (a = b)"
| "strict_eq (JFun a t) (JFun b u) = (a = b)"
| "strict_eq v w = False"

definition isNaN :: "jsval \<Rightarrow> bool" where
  "isNaN v = (ToNumber v = NaN)"

definition parseFloat :: "jsval \<Rightarrow> jsval" where
  "parseFloat v = JNum (parseFloat_str (ToString v))"

section \<open>The formatting helpers of the binding engine\<close>

text \<open>
  The helper functions at the end of the bindings file. Their names lose the leading
  underscore of the source. A returned pair is the outcome (\<open>Inl\<close> a thrown error) and
  the events caused.
\<close>

text \<open>
  \<^verbatim>\<open>function _formatNotUndefined<T extends U, Z, U>(v: T, f: (v: T) => Z, u: U = v) {
    return v != undefined ? f(v) : u;
  }\<close>
  The loose comparison fails for \<^verbatim>\<open>undefined\<close> and \<^verbatim>\<open>null\<close>; the default of \<open>u\<close> applies
  when the argument is left out or \<^verbatim>\<open>undefined\<close>.
\<close>

definition formatNotUndefined :: "jsval \<Rightarrow> (jsval \<Rightarrow> jsval) \<Rightarrow> jsval \<Rightarrow> jsval" where
  "formatNotUndefined v f u =
     (if v = JUndefined \<or> v = JNull then (if u = JUndefined then v else u) else f v)"

text \<open>
  \<^verbatim>\<open>function _stringFormatter(d: any): string {
    if (typeof d === "object") {
      if (d.toString === Object.prototype.toString) {
        logUnhandledException(err(ERROR.Binding_ObjectType));
        return "???";
      }
      if (d.toString === Array.prototype.toString && d.map === Array.prototype.map) {
        return (d as any[]).map(_stringFormatter).join(", ");
      }
    }
    return _formatNotUndefined(d, String, "");
  }\<close>
  The test \<^verbatim>\<open>typeof d === "object"\<close> holds for \<^verbatim>\<open>null\<close> as well, and reading \<^verbatim>\<open>d.toString\<close>
  of \<^verbatim>\<open>null\<close> throws a \<open>TypeError\<close>. \<open>stringFormatter_map\<close> is
  \<^verbatim>\<open>d.map(_stringFormatter)\<close>: it stops at the first element that throws.
\<close>

fun stringFormatter :: "jsval \<Rightarrow> (exn + jsval) \<times> event list"
  and stringFormatter_map :: "jsval list \<Rightarrow> (exn + jsval list) \<times> event list" where
  "stringFormatter JNull = (Inl TypeError, [])"
| "stringFormatter (JObj a k ps) = (case k of
       Plain \<Rightarrow> (Inr (JStr ''???''), [Unhandled (err Binding_ObjectType None)])
     | Custom s \<Rightarrow> (Inr (formatNotUndefined (JObj a k ps) String_fn (JStr [])), []))"
| "stringFormatter (JArr a xs) = (case stringFormatter_map xs of
       (Inl e, ev) \<Rightarrow> (Inl e, ev)
     | (Inr ys, ev) \<Rightarrow> (Inr (JStr (Array_join '', '' ys)), ev))"
| "stringFormatter JUndefined = (Inr (formatNotUndefined JUndefined String_fn (JStr [])), [])"
| "stringFormatter (JBool b) = (Inr (formatNotUndefined (JBool b) String_fn (JStr [])), [])"
| "stringFormatter (JNum x) = (Inr (formatNotUndefined (JNum x) String_fn (JStr [])), [])"
| "stringFormatter (JStr s) = (Inr (formatNotUndefined (JStr s) String_fn (JStr [])), [])"
| "stringFormatter (JFun a t) = (Inr (formatNotUndefined (JFun a t) String_fn (JStr [])), [])"
| "stringFormatter_map [] = (Inr [], [])"
| "stringFormatter_map (x # xs) = (case stringFormatter x of
       (Inl e, ev) \<Rightarrow> (Inl e, ev)
     | (Inr y, ev) \<Rightarrow> (case stringFormatter_map xs of
           (Inl e, ev') \<Rightarrow> (Inl e, ev @ ev')
         | (Inr ys, ev') \<Rightarrow> (Inr (y # ys), ev @ ev')))"

definition floatFormatter :: "jsval \<Rightarrow> jsval" where
  "floatFormatter d = formatNotUndefined d parseFloat JUndefined"

text \<open>
  \<^verbatim>\<open>let result = Math.round(_formatNotUndefined(d, parseFloat, 0));
  return result > 0 ? result : result < 0 ? result : 0;\<close>
\<close>

definition intFormatter :: "jsval \<Rightarrow> jsval" where
  "intFormatter d =
     (let result = Math_round (ToNumber (formatNotUndefined d parseFloat (JNum (Dec 0 0))))
      in if num_gt0 result then JNum result
         else if num_lt0 result then JNum result
         else JNum (Dec 0 0))"

text \<open>
  \<^verbatim>\<open>if (n === undefined || isNaN(n)) return "";
  decimals = +decimals;
  return (+(parseFloat(n).toFixed(decimals + 1) + "1")).toFixed(decimals);\<close>
\<close>

definition decimalFormatter :: "jsval \<Rightarrow> jsval \<Rightarrow> exn + jsval" where
  "decimalFormatter n decimals =
     (if n = JUndefined \<or> isNaN n then Inr (JStr [])
      else
        let d = ToNumber decimals
        in (case toFixed (parseFloat_str (ToString n)) (num_add d (Dec 1 0)) of
              Inl e \<Rightarrow> Inl e
            | Inr s \<Rightarrow> (case toFixed (StringToNumber (s @ ''1'')) d of
                  Inl e \<Rightarrow> Inl e
                | Inr r \<Rightarrow> Inr (JStr r))))"

text \<open>Values that are not \<^verbatim>\<open>null\<close> and hold no \<^verbatim>\<open>null\<close> in an array, at any depth.\<close>

fun null_free :: "jsval \<Rightarrow> bool" where
  "null_free JNull = False"
| "null_free (JArr a xs) = list_all null_free xs"
| "null_free v = True"

section \<open>Binding: the filter registry, the constructor and the reader\<close>

subsection \<open>The registry \<^verbatim>\<open>Binding.filters\<close>\<close>

text \<open>
  One name per function of the registry; \<open>F_not\<close> is \<^verbatim>\<open>v => !v\<close> and \<open>F_bool\<close> is
  \<^verbatim>\<open>v => !!v\<close>. The registry is written as an object literal, so reading
  \<^verbatim>\<open>Binding.filters[fmt]\<close> also finds what the literal inherits from \<^verbatim>\<open>Object.prototype\<close>:
  \<open>F_inherited\<close> stands for such a member.
\<close>

datatype filter_id =
    F_not | F_bool | F_or | F_then | F_tt
  | F_stringFormatter | F_ucFormatter | F_lcFormatter | F_blankFormatter
  | F_floatFormatter | F_intFormatter | F_decimalFormatter
  | F_uniqueFormatter | F_pluckFormatter
  | F_inherited string

definition Binding_filters :: "(string \<times> filter_id) list" where
  "Binding_filters =
     [(''!'', F_not), (''not?'', F_not), (''?'', F_bool), (''!!'', F_bool),
      (''or'', F_or), (''then'', F_then), (''tt'', F_tt),
      (''s'', F_stringFormatter), (''str'', F_stringFormatter), (''string'', F_stringFormatter),
      (''uc'', F_ucFormatter), (''lc'', F_lcFormatter),
      (''blank'', F_blankFormatter), (''_'', F_blankFormatter),
      (''n'', F_floatFormatter), (''num'', F_floatFormatter), (''number'', F_floatFormatter),
      (''i'', F_intFormatter), (''int'', F_intFormatter), (''integer'', F_intFormatter),
      (''dec'', F_decimalFormatter), (''uniq'', F_uniqueFormatter),
      (''pluck'', F_pluckFormatter)]"

text \<open>The property names of \<^verbatim>\<open>Object.prototype\<close>; each holds a function or an object.\<close>

definition Object_prototype_keys :: "string list" where
  "Object_prototype_keys =
     [''constructor'', ''hasOwnProperty'', ''isPrototypeOf'', ''propertyIsEnumerable'',
      ''toLocaleString'', ''toString'', ''valueOf'', ''__proto__'',
      ''__defineGetter__'', ''__defineSetter__'', ''__lookupGetter__'', ''__lookupSetter__'']"

text \<open>\<^verbatim>\<open>Binding.filters[fmt]\<close>: \<open>None\<close> is \<^verbatim>\<open>undefined\<close>; every value found is truthy.\<close>

definition filters_get :: "string \<Rightarrow> filter_id option" where
  "filters_get fmt = (case map_of Binding_filters fmt of
       Some f \<Rightarrow> Some f
     | None \<Rightarrow> (if fmt \<in> set Object_prototype_keys then Some (F_inherited fmt) else None))"

text \<open>
  A filter called with \<^verbatim>\<open>(v, arg)\<close>. The boolean, string, number, int and decimal filters
  are modelled. The others are left to the \<open>host\<close>, a parameter of the model that says
  what such a filter returns: \<^verbatim>\<open>tt\<close> of the translation service, the filters that change
  case by locale, those that build new objects or read managed lists (\<^verbatim>\<open>blank\<close>,
  \<^verbatim>\<open>uniq\<close>, \<^verbatim>\<open>pluck\<close>), and the inherited members.
\<close>

type_synonym host = "filter_id \<Rightarrow> jsval \<Rightarrow> jsval \<Rightarrow> (exn + jsval) \<times> event list"

definition call_filter :: "host \<Rightarrow> filter_id \<Rightarrow> jsval \<Rightarrow> jsval \<Rightarrow> (exn + jsval) \<times> event list" where
  "call_filter h f v arg = (case f of
       F_not \<Rightarrow> (Inr (JBool (\<not> ToBoolean v)), [])
     | F_bool \<Rightarrow> (Inr (JBool (ToBoolean v)), [])
     | F_or \<Rightarrow> (Inr (if ToBoolean v then v else arg), [])
     | F_then \<Rightarrow>
         (let x = (if ToBoolean v then arg else v)
          in (Inr (if ToBoolean x then x else JUndefined), []))
     | F_stringFormatter \<Rightarrow> stringFormatter v
     | F_floatFormatter \<Rightarrow> (Inr (floatFormatter v), [])
     | F_intFormatter \<Rightarrow> (Inr (intFormatter v), [])
     | F_decimalFormatter \<Rightarrow> (decimalFormatter v arg, [])
     | _ \<Rightarrow> h f v arg)"

subsection \<open>The class \<^verbatim>\<open>Binding\<close>\<close>

text \<open>
  \<open>filter_p\<close> is the private \<^verbatim>\<open>_filter\<close>, the chained filter function of
  \<^verbatim>\<open>(v, boundParent)\<close>; \<open>uid\<close> is the running number in the binding's \<^verbatim>\<open>id\<close>;
  \<open>parent_b\<close> the \<open>uid\<close> of the parent binding, if any.
\<close>

type_synonym filter_fun = "host \<Rightarrow> jsval \<Rightarrow> jsval \<Rightarrow> (exn + jsval) \<times> event list"

record binding =
  propertyName :: "string option"
  path :: "string list option"
  filter_p :: "filter_fun option"
  defaultValue :: jsval
  uid :: nat
  parent_b :: "nat option"

definition indexOf :: "char \<Rightarrow> string \<Rightarrow> int" where
  "indexOf c s = (if c \<in> set s then int (length (takeWhile (\<lambda>x. x \<noteq> c) s)) else - 1)"

text \<open>
  \<^verbatim>\<open>addFilter(fmt)\<close> in its three steps. First the format is trimmed and split into the
  filter's name and argument: a trailing \<^verbatim>\<open>(...)\<close> is split off when the \<^verbatim>\<open>(\<close> is not the
  first character and the last character is \<^verbatim>\<open>)\<close>.
\<close>

definition has_arg :: "string \<Rightarrow> bool" where
  "has_arg fmt = (0 < indexOf (CHR ''('') fmt \<and> fmt \<noteq> [] \<and> last fmt = CHR '')'')"

definition filter_name :: "string \<Rightarrow> string" where
  "filter_name fmt0 =
     (let fmt = trim fmt0
      in if has_arg fmt then trim (take (nat (indexOf (CHR ''('') fmt)) fmt) else fmt)"

definition filter_arg :: "string \<Rightarrow> jsval" where
  "filter_arg fmt0 =
     (let fmt = trim fmt0
      in if has_arg fmt
         then JStr (trim (butlast (drop (nat (indexOf (CHR ''('') fmt) + 1) fmt)))
         else JUndefined)"

text \<open>
  Last the new chained filter is stored:
  \<^verbatim>\<open>this._filter = (v, boundParent) => {
    if (oldFilter) v = oldFilter(v, boundParent);
    return filter(v, arg);
  }\<close>
\<close>

definition chained :: "filter_fun option \<Rightarrow> filter_id \<Rightarrow> jsval \<Rightarrow> filter_fun" where
  "chained oldFilter flt arg = (\<lambda>h v boundParent.
     (case oldFilter of
        None \<Rightarrow> call_filter h flt v arg
      | Some old \<Rightarrow> (case old h v boundParent of
            (Inl e, ev) \<Rightarrow> (Inl e, ev)
          | (Inr v', ev) \<Rightarrow>
              (fst (call_filter h flt v' arg), ev @ snd (call_filter h flt v' arg)))))"

text \<open>
  In between the filter is selected by its name:
  \<^verbatim>\<open>let filter = Binding.filters[fmt];
  if (!filter) throw err(ERROR.Binding_UnknownFilter, fmt);\<close>
\<close>

definition addFilter :: "string \<Rightarrow> binding \<Rightarrow> exn + binding" where
  "addFilter fmt self = (case filters_get (filter_name fmt) of
       None \<Rightarrow> Inl (err Binding_UnknownFilter (Some (filter_name fmt)))
     | Some flt \<Rightarrow>
         Inr (self\<lparr>filter_p := Some (chained (filter_p self) flt (filter_arg fmt))\<rparr>))"

text \<open>\<^verbatim>\<open>String.prototype.split\<close> with a separator of one character.\<close>

fun split :: "char \<Rightarrow> string \<Rightarrow> string list" where
  "split c [] = [[]]"
| "split c (x # xs) =
     (if x = c then [] # split c xs
      else (case split c xs of w # ws \<Rightarrow> (x # w) # ws | [] \<Rightarrow> [[x]]))"

text \<open>
  The constructor's loops:
  \<^verbatim>\<open>while (propertyName[0] === "!") { propertyName = propertyName.slice(1); this.addFilter("!"); }\<close>
  and \<^verbatim>\<open>for (let part of parts) this.addFilter(part);\<close>
\<close>

fun strip_bangs :: "string \<Rightarrow> binding \<Rightarrow> exn + (string \<times> binding)" where
  "strip_bangs [] self = Inr ([], self)"
| "strip_bangs (c # cs) self =
     (if c = CHR ''!'' then (case addFilter ''!'' self of
          Inl e \<Rightarrow> Inl e
        | Inr self' \<Rightarrow> strip_bangs cs self')
      else Inr (c # cs, self))"

fun addFilters :: "string list \<Rightarrow> binding \<Rightarrow> exn + binding" where
  "addFilters [] self = Inr self"
| "addFilters (part # parts) self = (case addFilter part self of
       Inl e \<Rightarrow> Inl e
     | Inr self' \<Rightarrow> addFilters parts self')"

definition Binding_ctor :: "nat \<Rightarrow> string option \<Rightarrow> jsval \<Rightarrow> exn + binding" where
  "Binding_ctor next_uid source dflt =
     (let self0 = \<lparr>propertyName = None, path = None, filter_p = None,
                   defaultValue = dflt, uid = next_uid, parent_b = None\<rparr>
      in (case source of
            None \<Rightarrow> Inr self0
          | Some src \<Rightarrow>
              (let parts = split (CHR ''|'') src;
                   pth = split (CHR ''.'') (hd parts)
               in (case strip_bangs (hd pth) self0 of
                     Inl e \<Rightarrow> Inl e
                   | Inr (pn, self1) \<Rightarrow>
                       (case addFilters (tl parts) self1 of
                          Inl e \<Rightarrow> Inl e
                        | Inr self2 \<Rightarrow>
                            Inr (self2\<lparr>propertyName := Some pn,
                                      path := (if tl pth = [] then None else Some (tl pth))\<rparr>))))))"

subsection \<open>Reading properties\<close>

text \<open>
  \<^verbatim>\<open>p in v\<close> and \<^verbatim>\<open>v[p]\<close>. The \<^verbatim>\<open>in\<close> operator throws on a value that is not an object;
  reading a property of \<^verbatim>\<open>undefined\<close> or \<^verbatim>\<open>null\<close> throws. An array has its indices and
  \<^verbatim>\<open>length\<close>, a string its characters and \<^verbatim>\<open>length\<close>; of the members of the built-in
  prototypes only what the table of an object lists is read, and nothing is read on a
  function, a number or a boolean.
\<close>

definition array_index :: "string \<Rightarrow> nat \<Rightarrow> nat option" where
  "array_index p n = find (\<lambda>i. digits i = p) [0..<n]"

definition has_property :: "jsval \<Rightarrow> string \<Rightarrow> exn + bool" where
  "has_property v p = (case v of
       JObj a k ps \<Rightarrow> Inr (map_of ps p \<noteq> None)
     | JArr a xs \<Rightarrow> Inr (p = ''length'' \<or> array_index p (length xs) \<noteq> None)
     | JFun a t \<Rightarrow> Inr False
     | _ \<Rightarrow> Inl TypeError)"

definition get_property :: "jsval \<Rightarrow> string \<Rightarrow> exn + jsval" where
  "get_property v p = (case v of
       JUndefined \<Rightarrow> Inl TypeError
     | JNull \<Rightarrow> Inl TypeError
     | JObj a k ps \<Rightarrow> Inr (case map_of ps p of Some x \<Rightarrow> x | None \<Rightarrow> JUndefined)
     | JArr a xs \<Rightarrow>
         Inr (if p = ''length'' then JNum (Dec (int (length xs)) 0)
              else (case array_index p (length xs) of Some i \<Rightarrow> xs ! i | None \<Rightarrow> JUndefined))
     | JStr s \<Rightarrow>
         Inr (if p = ''length'' then JNum (Dec (int (length s)) 0)
              else (case array_index p (length s) of Some i \<Rightarrow> JStr [s ! i] | None \<Rightarrow> JUndefined))
     | _ \<Rightarrow> Inr JUndefined)"

text \<open>\<^verbatim>\<open>g(p)\<close> for a function value \<open>g\<close>.\<close>

definition call_function :: "jsval \<Rightarrow> string \<Rightarrow> jsval" where
  "call_function g p = (case g of
       JFun a t \<Rightarrow> (case map_of t p of Some x \<Rightarrow> x | None \<Rightarrow> JUndefined)
     | _ \<Rightarrow> JUndefined)"

text \<open>
  The loop over the nested path:
  \<^verbatim>\<open>for (let i = 0; i < path.length && result != undefined; i++) {
    let p = path[i];
    if (!(p in result) && typeof result.get === "function") result = result.get(p);
    else result = result[p];
  }\<close>
\<close>

fun walk :: "string list \<Rightarrow> jsval \<Rightarrow> exn + jsval" where
  "walk [] result = Inr result"
| "walk (p # ps) result =
     (if result = JUndefined \<or> result = JNull then Inr result
      else (case has_property result p of
              Inl e \<Rightarrow> Inl e
            | Inr has \<Rightarrow>
                if has then (case get_property result p of
                     Inl e \<Rightarrow> Inl e
                   | Inr r \<Rightarrow> walk ps r)
                else (case get_property result ''get'' of
                     Inl e \<Rightarrow> Inl e
                   | Inr g \<Rightarrow>
                       if typeof g = ''function'' then walk ps (call_function g p)
                       else (case get_property result p of
                            Inl e \<Rightarrow> Inl e
                          | Inr r \<Rightarrow> walk ps r))))"

subsection \<open>The reader\<close>

text \<open>
  \<^verbatim>\<open>getValue(propertyHint?)\<close> of the reader class the constructor builds, for the binding
  \<open>self\<close> and the reader's \<open>boundParent\<close>. The hint is \<open>None\<close> when the call has no
  argument.
\<close>

definition getValue :: "host \<Rightarrow> binding \<Rightarrow> jsval \<Rightarrow> jsval option \<Rightarrow> (exn + jsval) \<times> event list" where
  "getValue h self boundParent propertyHint =
     (case (case propertyHint of
              Some hint \<Rightarrow> Inr hint
            | None \<Rightarrow> (case propertyName self of
                  Some pn \<Rightarrow> get_property boundParent pn
                | None \<Rightarrow> Inr JUndefined)) of
        Inl e \<Rightarrow> (Inl e, [])
      | Inr start \<Rightarrow>
          (case (case path self of Some ps \<Rightarrow> walk ps start | None \<Rightarrow> Inr start) of
             Inl e \<Rightarrow> (Inl e, [])
           | Inr result \<Rightarrow>
               (case (case filter_p self of
                        Some f \<Rightarrow> f h result boundParent
                      | None \<Rightarrow> (Inr result, [])) of
                  (Inl e, ev) \<Rightarrow> (Inl e, ev)
                | (Inr r, ev) \<Rightarrow>
                    (Inr (if r = JUndefined \<and> defaultValue self \<noteq> JUndefined
                          then defaultValue self else r), ev))))"

section \<open>Binding.Bound: the components bound to one binding\<close>

text \<open>
  A consumer component, as \<^verbatim>\<open>updateComponents\<close> sees it: its identity and its methods named
  by binding ids (\<^verbatim>\<open>component[id]\<close>). A method takes the new value and returns normally
  (\<open>None\<close>) or throws.
\<close>

record component =
  cid :: nat
  hooks :: "(nat \<times> (jsval \<Rightarrow> exn option)) list"

text \<open>
  Modelled from the spec: the class \<^verbatim>\<open>ManagedList\<close>, which \<open>Bound\<close> extends, is not among the
  sources. A managed list is an ordered sequence of managed objects: \<open>components\<close> are the
  list's elements, \<^verbatim>\<open>count\<close> is their number and \<^verbatim>\<open>forEach\<close> visits them in order.

  \<open>updatedValue\<close> is \<^verbatim>\<open>_updatedValue\<close> (\<open>None\<close> while \<^verbatim>\<open>undefined\<close>), \<open>lastValue\<close> is
  \<^verbatim>\<open>_lastValue\<close>. \<open>reader\<close> is \<^verbatim>\<open>_reader.getValue\<close> as it answers now: when the bound
  parent's state changes, the field is replaced. The parent Bound is held by value.
\<close>

datatype bound =
  Bound (binding: binding) (components: "component list") (parent: "bound option")
    (updatedValue: "bool option") (lastValue: jsval)
    (reader: "jsval option \<Rightarrow> (exn + jsval) \<times> event list")

text \<open>
  The constructor; \<open>getBoundBinding\<close> is \<^verbatim>\<open>boundParent.getBoundBinding\<close>, a method of the
  component class, by the parent binding's \<open>uid\<close>.
\<close>

definition Bound_ctor :: "host \<Rightarrow> (nat \<Rightarrow> bound option) \<Rightarrow> binding \<Rightarrow> jsval \<Rightarrow> exn + bound" where
  "Bound_ctor h getBoundBinding bnd boundParent = (case parent_b bnd of
       Some pid \<Rightarrow> (case getBoundBinding pid of
           None \<Rightarrow> Inl (err Binding_ParentNotFound None)
         | Some p \<Rightarrow> Inr (Bound bnd [] (Some p) None JUndefined (getValue h bnd boundParent)))
     | None \<Rightarrow> Inr (Bound bnd [] None None JUndefined (getValue h bnd boundParent)))"

definition hasValue :: "bound \<Rightarrow> bool" where
  "hasValue b = (updatedValue b = Some True)"

text \<open>The getter \<^verbatim>\<open>value\<close>.\<close>

definition get_value :: "bound \<Rightarrow> (exn + jsval) \<times> event list" where
  "get_value b =
     (if updatedValue b = Some True then (Inr (lastValue b), [])
      else (fst (reader b None), ReaderRead None # snd (reader b None)))"

text \<open>
  The loop of \<^verbatim>\<open>updateComponents\<close>, for the binding id and the new value:
  \<^verbatim>\<open>this.forEach((component: any) => {
    try {
      if (typeof component[id] !== "function") throw err(ERROR.Binding_NoComponent);
      component[id](value);
    } catch (err) {
      logUnhandledException(err);
    }
  });\<close>
  A hook is called with the value and what it does to the component is its own affair; the
  trace keeps the call and the error logged.
\<close>

fun notify :: "nat \<Rightarrow> jsval \<Rightarrow> component list \<Rightarrow> event list" where
  "notify i v [] = []"
| "notify i v (c # cs) =
     (case map_of (hooks c) i of
        None \<Rightarrow> [Unhandled (err Binding_NoComponent None)]
      | Some hook \<Rightarrow> Update (cid c) v #
          (case hook v of None \<Rightarrow> [] | Some e \<Rightarrow> [Unhandled e])) @ notify i v cs"

text \<open>
  \<^verbatim>\<open>updateComponents(_v?)\<close>: the thrown error if any, the Bound afterwards and the events.
  The argument is \<open>None\<close> for a call without arguments.
\<close>

fun updateComponents :: "jsval option \<Rightarrow> bound \<Rightarrow> exn option \<times> bound \<times> event list" where
  "updateComponents v (Bound bnd cs par upd lastv rd) =
     (if cs = [] \<and> par = None then (None, Bound bnd cs par (Some False) lastv rd, [])
      else (case rd v of
          (Inl e, ev) \<Rightarrow> (Some e, Bound bnd cs par upd lastv rd, ReaderRead v # ev)
        | (Inr x, ev) \<Rightarrow>
            if upd \<noteq> Some True \<or> \<not> strict_eq lastv x
            then (case par of
                Some p \<Rightarrow> (case updateComponents None p of
                    (r, p', ev') \<Rightarrow>
                      (r, Bound bnd cs (Some p') (Some True) x rd, ReaderRead v # ev @ ev'))
              | None \<Rightarrow>
                  (None, Bound bnd cs None (Some True) x rd,
                   ReaderRead v # ev @ notify (uid bnd) x cs))
            else (None, Bound bnd cs par upd lastv rd, ReaderRead v # ev)))"

text \<open>The events of a trace that are calls of update hooks, and those that are logged errors.\<close>

fun updates :: "event list \<Rightarrow> (nat \<times> jsval) list" where
  "updates [] = []"
| "updates (Update c v # es) = (c, v) # updates es"
| "updates (e # es) = updates es"

fun unhandled :: "event list \<Rightarrow> exn list" where
  "unhandled [] = []"
| "unhandled (Unhandled e # es) = e # unhandled es"
| "unhandled (e # es) = unhandled es"

fun reads :: "event list \<Rightarrow> jsval option list" where
  "reads [] = []"
| "reads (ReaderRead h # es) = h # reads es"
| "reads (e # es) = reads es"

text \<open>The Bound with its reader replaced: the bound parent's state has changed.\<close>

definition with_reader :: "(jsval option \<Rightarrow> (exn + jsval) \<times> event list) \<Rightarrow> bound \<Rightarrow> bound" where
  "with_reader rd b = Bound (binding b) (components b) (parent b) (updatedValue b) (lastValue b) rd"

section \<open>ManagedService: the registry of named services\<close>

text \<open>
  A service object: its identity and the name its constructor stores.
\<close>

record service =
  sid :: nat
  name :: string

text \<open>
  Modelled from the spec: the class \<^verbatim>\<open>ManagedReference\<close> is not among the sources. A
  reference is a slot for zero or one managed object, optionally restricted to a class and
  propagating events.
\<close>

record managed_reference =
  target :: "service option"
  restricted :: bool
  propagating :: bool

text \<open>
  Modelled from the spec: the class \<^verbatim>\<open>ManagedMap\<close> is not among the sources. The singleton
  \<^verbatim>\<open>ServiceContainer.instance\<close> holds one: \<open>services\<close> is the key-unique mapping
  (\<^verbatim>\<open>get\<close> reads it, \<^verbatim>\<open>set\<close> stores under a key), from the uppercased name to a reference
  object. Reference objects live in the store \<open>refs\<close> under their identity; \<open>next_ref\<close> is
  the next free identity. \<open>destroyed\<close> are the services destroyed so far.
\<close>

record container =
  services :: "string \<rightharpoonup> nat"
  refs :: "nat \<rightharpoonup> managed_reference"
  next_ref :: nat
  destroyed :: "nat set"

text \<open>
  \<^verbatim>\<open>String.prototype.toUpperCase\<close> is a parameter of the model: the functions below that
  read a name take it as their first argument \<open>toUpperCase\<close>, call it on the name and use
  the result as the key, as the code does with \<^verbatim>\<open>String(name).toUpperCase()\<close>. Nothing is
  assumed of it, so what is proved does not depend on which characters it converts.
\<close>

type_synonym upper = "string \<Rightarrow> string"

text \<open>
  Modelled from the spec: the setter of \<^verbatim>\<open>ManagedReference.target\<close> is not among the sources.
  Assigning a new target to a reference, \<^verbatim>\<open>ref.target = this\<close>, destroys the previous target,
  which the reference owns.
\<close>

definition set_target :: "nat \<Rightarrow> service \<Rightarrow> container \<Rightarrow> container" where
  "set_target r s c = (case refs c r of
       None \<Rightarrow> c
     | Some ref \<Rightarrow>
         c\<lparr>refs := (refs c)(r \<mapsto> ref\<lparr>target := Some s\<rparr>),
           destroyed := (case target ref of
               Some old \<Rightarrow>
                 (if sid old = sid s then destroyed c else insert (sid old) (destroyed c))
             | None \<Rightarrow> destroyed c)\<rparr>)"

text \<open>
  Modelled from the spec: the constructor and the methods \<^verbatim>\<open>restrict\<close> and
  \<^verbatim>\<open>propagateEvents\<close> of \<^verbatim>\<open>ManagedReference\<close> are not among the sources. A new reference to
  \<open>t\<close>, restricted and propagating, is stored under the key:
  \<^verbatim>\<open>ref = new ManagedReference(t).restrict(ManagedService).propagateEvents();
  ServiceContainer.instance.services.set(ucName, ref);\<close>
\<close>

definition new_reference :: "string \<Rightarrow> service option \<Rightarrow> container \<Rightarrow> container" where
  "new_reference ucName t c =
     c\<lparr>services := (services c)(ucName \<mapsto> next_ref c),
       refs := (refs c)(next_ref c \<mapsto> \<lparr>target = t, restricted = True, propagating = True\<rparr>),
       next_ref := Suc (next_ref c)\<rparr>"

text \<open>\<^verbatim>\<open>static find(name)\<close>: \<^verbatim>\<open>ref && ref.target\<close>.\<close>

definition find_service :: "upper \<Rightarrow> string \<Rightarrow> container \<Rightarrow> service option" where
  "find_service toUpperCase nm c = (case services c (toUpperCase nm) of
       None \<Rightarrow> None
     | Some r \<Rightarrow> (case refs c r of None \<Rightarrow> None | Some ref \<Rightarrow> target ref))"

text \<open>\<^verbatim>\<open>register()\<close>.\<close>

definition register :: "upper \<Rightarrow> service \<Rightarrow> container \<Rightarrow> exn + container" where
  "register toUpperCase this c =
     (let ucName = toUpperCase (name this)
      in if ucName = [] then Inl (Error ''[Service] Service name cannot be blank'')
         else (case services c ucName of
             Some r \<Rightarrow> Inr (set_target r this c)
           | None \<Rightarrow> Inr (new_reference ucName (Some this) c)))"

text \<open>
  The decorator \<^verbatim>\<open>service(name)\<close>: the reference the decorated property reads through,
  created as an empty placeholder when the name has none.
\<close>

definition service_decorator :: "upper \<Rightarrow> string \<Rightarrow> container \<Rightarrow> nat \<times> container" where
  "service_decorator toUpperCase nm c =
     (let ucName = toUpperCase nm
      in (case services c ucName of
            Some r \<Rightarrow> (r, c)
          | None \<Rightarrow> (next_ref c, new_reference ucName None c)))"

text \<open>What a property decorated for the reference \<open>r\<close> reads: the target of that reference.\<close>

definition read_reference :: "nat \<Rightarrow> container \<Rightarrow> service option" where
  "read_reference r c = (case refs c r of None \<Rightarrow> None | Some ref \<Rightarrow> target ref)"

text \<open>
  The states the functions above keep: every reference the map holds is in the store, below
  the next free identity.
\<close>

definition container_ok :: "container \<Rightarrow> bool" where
  "container_ok c = (\<forall>k r. services c k = Some r \<longrightarrow> r < next_ref c \<and> refs c r \<noteq> None)"

definition empty_container :: container where
  "empty_container = \<lparr>services = Map.empty, refs = Map.empty, next_ref = 0, destroyed = {}\<rparr>"

section \<open>UIModalController\<close>

text \<open>
  A renderable instance: the class it was constructed from and its identity.
\<close>

record renderable =
  class_of :: nat
  instance_id :: nat

text \<open>
  The output a render callback is called with. \<open>element\<close> is \<open>None\<close> when the output has
  no element; the other fields are \<open>None\<close> while \<^verbatim>\<open>undefined\<close>. A placement is a member of
  the enumeration \<^verbatim>\<open>UIRenderPlacement\<close>, by its number (zero is falsy).
\<close>

record render_output =
  element :: "nat option"
  out_placement :: "nat option"
  out_placementRef :: "nat option"
  out_modalShadeClickToClose :: "bool option"
  out_modalShadeOpacity :: "jsnum option"

text \<open>
  The controller together with its observer. \<open>ModalClass_p\<close> is the preset \<^verbatim>\<open>_ModalClass\<close>,
  \<open>modal\<close> the managed child property. \<open>renderCallback_p\<close> is the observer's
  \<^verbatim>\<open>_renderCallback\<close>: \<open>None\<close> while \<^verbatim>\<open>undefined\<close>, otherwise a callback of the render
  context, held as the list of outputs passed down its chain so far (the render context is
  not among the sources; by the spec each render step returns the next callback to call).
  \<open>rendered\<close> lists the instances whose \<^verbatim>\<open>render\<close> was called with a callback proxy: what
  a modal does in its \<^verbatim>\<open>render\<close>, and when it calls the proxy, is the modal's affair, and
  a call of the proxy is a step of its own. \<open>next_instance\<close> is the identity of the next
  object constructed.
\<close>

record modal_controller =
  ModalClass_p :: "nat option"
  modal :: "renderable option"
  placement :: nat
  modalShadeOpacity :: "jsnum option"
  modalShadeClickToClose :: bool
  renderCallback_p :: "render_output option list option"
  rendered :: "renderable list"
  next_instance :: nat

text \<open>
  What the observer finds around the controller: the reference component of
  \<^verbatim>\<open>_getReferenceComponent()\<close>, and whether the bound parent application with a render
  context is there.
\<close>

record surroundings =
  reference_component :: "nat option"
  has_render_context :: bool

text \<open>
  The observer's \<^verbatim>\<open>onModalChange()\<close>: the current callback chain, if any, is called with
  \<^verbatim>\<open>undefined\<close>; a modal that is set and can be placed gets a fresh callback chain and is
  rendered with the proxy.
\<close>

definition onModalChange :: "surroundings \<Rightarrow> modal_controller \<Rightarrow> modal_controller" where
  "onModalChange env c =
     (let c1 = (case renderCallback_p c of
                  Some chain \<Rightarrow> c\<lparr>renderCallback_p := Some (chain @ [None])\<rparr>
                | None \<Rightarrow> c)
      in (case modal c1 of
            Some m \<Rightarrow>
              if reference_component env \<noteq> None \<and> has_render_context env
              then c1\<lparr>renderCallback_p := Some [], rendered := rendered c1 @ [m]\<rparr>
              else c1
          | None \<Rightarrow> c1))"

text \<open>
  Modelled from the spec: managed properties and observers (\<^verbatim>\<open>managedChild\<close>,
  \<^verbatim>\<open>addObserver\<close>) are not among the sources. An assignment to the managed property
  \<^verbatim>\<open>modal\<close> stores the value, and the observer's \<^verbatim>\<open>onModalChange\<close> runs when the value
  changes.
\<close>

definition set_modal :: "surroundings \<Rightarrow> renderable option \<Rightarrow> modal_controller \<Rightarrow> modal_controller" where
  "set_modal env m c = (if modal c = m then c else onModalChange env (c\<lparr>modal := m\<rparr>))"

text \<open>\<^verbatim>\<open>showModal() { if (this._ModalClass) this.modal = new this._ModalClass(); }\<close>\<close>

definition showModal :: "surroundings \<Rightarrow> modal_controller \<Rightarrow> modal_controller" where
  "showModal env c = (case ModalClass_p c of
       Some cls \<Rightarrow>
         set_modal env (Some \<lparr>class_of = cls, instance_id = next_instance c\<rparr>)
           (c\<lparr>next_instance := Suc (next_instance c)\<rparr>)
     | None \<Rightarrow> c)"

text \<open>\<^verbatim>\<open>closeModal() { this.modal = undefined; }\<close>\<close>

definition closeModal :: "surroundings \<Rightarrow> modal_controller \<Rightarrow> modal_controller" where
  "closeModal env c = set_modal env None c"

text \<open>
  The handler the constructor passes to \<^verbatim>\<open>propagateChildEvents\<close>: the controller
  afterwards, and the event that is propagated on, if any.
\<close>

datatype managed_event = ComponentEvent string | OtherEvent string

definition child_event :: "surroundings \<Rightarrow> managed_event \<Rightarrow> modal_controller \<Rightarrow> modal_controller \<times> managed_event option" where
  "child_event env e c = (case e of
       ComponentEvent nm \<Rightarrow>
         if nm = ''ShowModal'' then (showModal env c, None)
         else if nm = ''CloseModal'' then (closeModal env c, None)
         else (c, Some e)
     | OtherEvent nm \<Rightarrow> (c, None))"

text \<open>
  The callback proxy the observer hands to the modal's \<^verbatim>\<open>render\<close>, called with an output
  (\<open>None\<close> for \<^verbatim>\<open>undefined\<close>).
\<close>

definition callbackProxy :: "surroundings \<Rightarrow> render_output option \<Rightarrow> modal_controller \<Rightarrow> modal_controller" where
  "callbackProxy env output c = (case renderCallback_p c of
       None \<Rightarrow> c
     | Some chain \<Rightarrow>
         (case output of
            Some out \<Rightarrow>
              if element out \<noteq> None then
                (let o1 = (if out_modalShadeClickToClose out = None
                           then out\<lparr>out_modalShadeClickToClose := Some (modalShadeClickToClose c)\<rparr>
                           else out);
                     o2 = (if out_modalShadeOpacity o1 = None
                           then o1\<lparr>out_modalShadeOpacity := modalShadeOpacity c\<rparr>
                           else o1);
                     o3 = (if out_placement o2 = None \<or> out_placement o2 = Some 0
                           then o2\<lparr>out_placement := Some (placement c),
                                   out_placementRef := reference_component env\<rparr>
                           else o2)
                 in c\<lparr>renderCallback_p := Some (chain @ [Some o3])\<rparr>)
              else set_modal env None (c\<lparr>renderCallback_p := Some (chain @ [None])\<rparr>)
          | None \<Rightarrow> set_modal env None (c\<lparr>renderCallback_p := Some (chain @ [None])\<rparr>)))"

text \<open>
  A controller as its constructor leaves it, for the preset class (if any) and the number
  of \<^verbatim>\<open>UIRenderPlacement.DIALOG\<close>; no modal is shown and the observer has no callback.
\<close>

definition new_controller :: "nat option \<Rightarrow> nat \<Rightarrow> nat \<Rightarrow> modal_controller" where
  "new_controller cls dialog n =
     \<lparr>ModalClass_p = cls, modal = None, placement = dialog, modalShadeOpacity = None,
      modalShadeClickToClose = True, renderCallback_p = None, rendered = [],
      next_instance = n\<rparr>"

text \<open>
  What holds of every state the operations reach from a new controller: once a callback
  proxy has been handed to a modal, the observer holds a callback; and the instances shown
  or rendered were constructed before.
\<close>

definition modal_ok :: "modal_controller \<Rightarrow> bool" where
  "modal_ok c =
     ((rendered c = [] \<or> renderCallback_p c \<noteq> None) \<and>
      list_all (\<lambda>m. instance_id m < next_instance c) (rendered c) \<and>
      (case modal c of None \<Rightarrow> True | Some m \<Rightarrow> instance_id m < next_instance c))"

section \<open>Auxiliary notions and example inputs\<close>

text \<open>
  Running the chained filter of a binding as the reader does
  (\<^verbatim>\<open>if (self._filter) result = self._filter(result, this.boundParent)\<close>), and running one
  computation after another: the second is not started when the first throws, and the
  events add up.
\<close>

definition run_filter :: "host \<Rightarrow> binding \<Rightarrow> jsval \<Rightarrow> jsval \<Rightarrow> (exn + jsval) \<times> event list" where
  "run_filter h b v boundParent = (case filter_p b of
       None \<Rightarrow> (Inr v, [])
     | Some f \<Rightarrow> f h v boundParent)"

definition and_then :: "(exn + jsval) \<times> event list \<Rightarrow> (jsval \<Rightarrow> (exn + jsval) \<times> event list) \<Rightarrow> (exn + jsval) \<times> event list" where
  "and_then r f = (case r of
       (Inl e, ev) \<Rightarrow> (Inl e, ev)
     | (Inr v, ev) \<Rightarrow> (fst (f v), ev @ snd (f v)))"

text \<open>A host whose filters all return \<^verbatim>\<open>undefined\<close>.\<close>

definition null_host :: host where
  "null_host f v arg = (Inr JUndefined, [])"



definition count_binding :: binding where
  "count_binding = \<lparr>propertyName = Some ''count'', path = None, filter_p = None,
     defaultValue = JUndefined, uid = 16, parent_b = None\<rparr>"



text \<open>A bound parent whose property \<^verbatim>\<open>count\<close> is \<open>3.7\<close>.\<close>

definition count_parent :: jsval where
  "count_parent = JObj 1 Plain [(''count'', JNum (Dec 37 1))]"

text \<open>
  A binding \<^verbatim>\<open>"count|n"\<close> on a bound parent whose \<^verbatim>\<open>count\<close> is the string \<^verbatim>\<open>"abc"\<close>, with one
  consumer whose update hook returns normally.
\<close>

definition nan_binding :: binding where
  "nan_binding = \<lparr>propertyName = Some ''count'', path = None,
     filter_p = Some (chained None F_floatFormatter JUndefined),
     defaultValue = JUndefined, uid = 18, parent_b = None\<rparr>"

definition text_parent :: jsval where
  "text_parent = JObj 1 Plain [(''count'', JStr ''abc'')]"

definition quiet_hook :: "jsval \<Rightarrow> exn option" where
  "quiet_hook v = None"

definition quiet_component :: component where
  "quiet_component = \<lparr>cid = 1, hooks = [(18, quiet_hook)]\<rparr>"

definition nan_bound :: bound where
  "nan_bound = Bound nan_binding [quiet_component] None None JUndefined
     (getValue null_host nan_binding text_parent)"

definition nan_bound_updated :: bound where
  "nan_bound_updated = Bound nan_binding [quiet_component] None (Some True) (JNum NaN)
     (getValue null_host nan_binding text_parent)"

text \<open>
  Consumers of the binding \<open>16\<close>: one whose hook throws, one without the hook, one whose
  hook returns; and a Bound that holds the three.
\<close>

definition failing_hook :: "jsval \<Rightarrow> exn option" where
  "failing_hook v = Some (Error ''hook failed'')"

definition failing_component :: component where
  "failing_component = \<lparr>cid = 1, hooks = [(16, failing_hook)]\<rparr>"

definition hookless_component :: component where
  "hookless_component = \<lparr>cid = 2, hooks = []\<rparr>"

definition sound_component :: component where
  "sound_component = \<lparr>cid = 3, hooks = [(16, quiet_hook)]\<rparr>"

definition three_bound :: bound where
  "three_bound = Bound count_binding [failing_component, hookless_component, sound_component]
     None None JUndefined (getValue null_host count_binding count_parent)"

text \<open>A Bound without consumers and without a parent that has a cached value.\<close>

definition detached_bound :: bound where
  "detached_bound = Bound count_binding [] None (Some True) (JNum (Dec 37 1))
     (getValue null_host count_binding count_parent)"

text \<open>
  The conversion to upper case of the examples: \<^verbatim>\<open>String.prototype.toUpperCase\<close> on strings
  of ASCII characters, the only strings the examples apply it to.
\<close>

definition upper_char :: "char \<Rightarrow> char" where
  "upper_char c =
     (case map_of (zip ''abcdefghijklmnopqrstuvwxyz'' ''ABCDEFGHIJKLMNOPQRSTUVWXYZ'') c of
        Some u \<Rightarrow> u
      | None \<Rightarrow> c)"

definition toUpperCase_ascii :: upper where
  "toUpperCase_ascii s = map upper_char s"

text \<open>Two services whose names differ in case only.\<close>

definition mail_service :: service where
  "mail_service = \<lparr>sid = 1, name = ''App.Mail''\<rparr>"

definition mail_service_2 :: service where
  "mail_service_2 = \<lparr>sid = 2, name = ''app.mail''\<rparr>"

text \<open>Two services with the blank name.\<close>

definition blank_service :: service where
  "blank_service = \<lparr>sid = 3, name = []\<rparr>"

definition blank_service_2 :: service where
  "blank_service_2 = \<lparr>sid = 4, name = []\<rparr>"

text \<open>
  A controller with the preset modal class \<open>7\<close>, and surroundings in which a modal can be
  placed.
\<close>

definition preset_controller :: modal_controller where
  "preset_controller = new_controller (Some 7) 3 0"

definition full_surroundings :: surroundings where
  "full_surroundings = \<lparr>reference_component = Some 1, has_render_context = True\<rparr>"

section \<open>Properties of the formatting helpers\<close>

text \<open>The definitions a concrete number or string is computed with.\<close>

lemmas num_eval = norm_dec.simps Number_toString_def digits.simps digit_char_def
  parseFloat_str_def trimStart_def trim_def is_ws_def parse_decimal_def is_digit_def
  digit_val_def parse_exponent_def mk_num_def digits_value_def Let_def ToNumber_def
  Math_round_def num_gt0_def num_lt0_def StringToNumber_def radix_literal_def toFixed_def
  fixed_digits_def ToIntegerOrInfinity_def isNaN_def is_zero_def

text \<open>
  C6. The int filter gives \<open>0\<close> for \<^verbatim>\<open>undefined\<close>, \<open>0\<close> for \<open>-0.4\<close> and \<open>3\<close> for \<open>2.6\<close>.
  For \<open>-0.4\<close> the rounding yields the negative zero, and the comparisons of the last line
  of the function turn it into the positive zero.
\<close>

theorem intFormatter_examples:
  "intFormatter JUndefined = JNum (Dec 0 0) \<and>
   Math_round (ToNumber (parseFloat (JNum (Dec (- 4) 1)))) = NegZero \<and>
   intFormatter (JNum (Dec (- 4) 1)) = JNum (Dec 0 0) \<and>
   intFormatter (JNum (Dec 26 1)) = JNum (Dec 3 0)"
  by (simp add: intFormatter_def formatNotUndefined_def parseFloat_def num_eval)

text \<open>
  C10. The string filter does throw: \<^verbatim>\<open>typeof null\<close> is \<^verbatim>\<open>"object"\<close>, so for \<^verbatim>\<open>null\<close> the
  function reads \<^verbatim>\<open>d.toString\<close> of \<^verbatim>\<open>null\<close>, a \<open>TypeError\<close>, before it reaches
  \<^verbatim>\<open>_formatNotUndefined\<close>, whose loose comparison would have given the empty string. The
  same happens for an array with a \<^verbatim>\<open>null\<close> element.
\<close>

theorem stringFormatter_null_throws:
  "stringFormatter JNull = (Inl TypeError, []) \<and>
   stringFormatter (JArr a [JStr ''x'', JNull]) = (Inl TypeError, [])"
  by simp

text \<open>
  What does hold of the string filter: on a value without \<^verbatim>\<open>null\<close> it returns a string and
  does not throw. It gives the empty string for \<^verbatim>\<open>undefined\<close>; for a plain object it logs
  the error and gives \<^verbatim>\<open>"???"\<close>; for an array it joins the formatted elements with
  \<^verbatim>\<open>", "\<close>.
\<close>

lemma stringFormatter_total:
  "null_free d \<Longrightarrow> \<exists>s ev. stringFormatter d = (Inr (JStr s), ev)"
  "list_all null_free ds \<Longrightarrow> \<exists>ys ev. stringFormatter_map ds = (Inr ys, ev)"
proof (induction d and ds rule: stringFormatter_stringFormatter_map.induct)
  case (2 a k ps)
  then show ?case
    by (cases k) (simp_all add: formatNotUndefined_def String_fn_def)
next
  case (3 a xs)
  then show ?case by auto
next
  case (10 x xs)
  then show ?case by auto
qed (simp_all add: formatNotUndefined_def String_fn_def)

theorem stringFormatter_without_null:
  "(null_free d \<longrightarrow> (\<exists>s ev. stringFormatter d = (Inr (JStr s), ev))) \<and>
   stringFormatter JUndefined = (Inr (JStr []), []) \<and>
   stringFormatter (JObj a Plain ps) =
     (Inr (JStr ''???''), [Unhandled (err Binding_ObjectType None)]) \<and>
   (\<forall>ys ev. stringFormatter_map xs = (Inr ys, ev) \<longrightarrow>
      stringFormatter (JArr b xs) = (Inr (JStr (Array_join '', '' ys)), ev))"
  using stringFormatter_total(1) [of d]
  by (simp add: formatNotUndefined_def)

theorem stringFormatter_without_null_witness:
  "null_free (JArr 1 [JNum (Dec 1 0), JUndefined, JArr 2 [JStr ''a'', JObj 3 Plain []]]) \<and>
   stringFormatter (JArr 1 [JNum (Dec 1 0), JUndefined, JArr 2 [JStr ''a'', JObj 3 Plain []]]) =
     (Inr (JStr ''1, , a, ???''), [Unhandled (err Binding_ObjectType None)])"
proof -
  have n: "null_free (JArr 1 [JNum (Dec 1 0), JUndefined, JArr 2 [JStr ''a'', JObj 3 Plain []]])"
    by simp
  have m: "stringFormatter_map [JNum (Dec 1 0), JUndefined, JArr 2 [JStr ''a'', JObj 3 Plain []]] =
      (Inr [JStr ''1'', JStr [], JStr ''a, ???''], [Unhandled (err Binding_ObjectType None)])"
    by (simp add: formatNotUndefined_def String_fn_def Array_join_def num_eval)
  from stringFormatter_without_null
    [of "JArr 1 [JNum (Dec 1 0), JUndefined, JArr 2 [JStr ''a'', JObj 3 Plain []]]"
        _ _ "[JNum (Dec 1 0), JUndefined, JArr 2 [JStr ''a'', JObj 3 Plain []]]" 1] m
  have "stringFormatter (JArr 1 [JNum (Dec 1 0), JUndefined, JArr 2 [JStr ''a'', JObj 3 Plain []]]) =
      (Inr (JStr (Array_join '', '' [JStr ''1'', JStr [], JStr ''a, ???''])),
       [Unhandled (err Binding_ObjectType None)])"
    by blast
  with n show ?thesis
    by (simp add: Array_join_def)
qed

text \<open>
  Strict equality is reflexive on every value but \<open>NaN\<close>.
\<close>

lemma num_eq_refl: "num_eq x x = (x \<noteq> NaN)"
  by (cases x) (simp_all add: is_zero_def)

theorem strict_eq_refl_iff: "strict_eq v v = (v \<noteq> JNum NaN)"
  by (cases v) (simp_all add: num_eq_refl)

section \<open>Properties of bindings and their readers\<close>

text \<open>A split string has at least one part, so the constructor's \<^verbatim>\<open>shift()\<close> finds one.\<close>

lemma split_not_Nil: "split c s \<noteq> []"
  by (induction s) (auto split: list.splits)

text \<open>
  C9. A name that the registry object inherits from \<^verbatim>\<open>Object.prototype\<close> is not a key of
  the registry, and yet \<^verbatim>\<open>addFilter\<close> does not throw for it: \<^verbatim>\<open>Binding.filters["toString"]\<close>
  is a function, so the test \<^verbatim>\<open>if (!filter)\<close> passes. A binding for \<^verbatim>\<open>"count|toString"\<close> is
  constructed without an error.
\<close>

theorem addFilter_inherited_name:
  "map_of Binding_filters ''toString'' = None \<and>
   (case addFilter ''toString'' self of Inl e \<Rightarrow> False | Inr b \<Rightarrow> filter_p b \<noteq> None) \<and>
   (case Binding_ctor n (Some ''count|toString'') d of Inl e \<Rightarrow> False | Inr b \<Rightarrow> True)"
  by (simp add: Binding_ctor_def addFilter_def filter_name_def filter_arg_def has_arg_def
      indexOf_def filters_get_def Binding_filters_def Object_prototype_keys_def trim_def
      is_ws_def Let_def)

text \<open>
  What does hold: \<^verbatim>\<open>addFilter\<close> throws exactly when the name is neither a key of the
  registry nor a member of \<^verbatim>\<open>Object.prototype\<close>, and the error is \<open>Binding_UnknownFilter\<close>
  with the name.
\<close>

theorem addFilter_throws_iff:
  "(addFilter fmt self = Inl e) =
     (e = err Binding_UnknownFilter (Some (filter_name fmt)) \<and>
      map_of Binding_filters (filter_name fmt) = None \<and>
      filter_name fmt \<notin> set Object_prototype_keys)"
  by (auto simp: addFilter_def filters_get_def split: option.splits)

subsection \<open>Filters run in the order of their segments\<close>

lemma and_then_assoc: "and_then (and_then r f) g = and_then r (\<lambda>v. and_then (f v) g)"
  by (auto simp: and_then_def split: prod.splits sum.splits)

lemma and_then_return: "and_then r (\<lambda>v. (Inr v, [])) = r"
  by (auto simp: and_then_def split: prod.splits sum.splits)

lemma run_chained: "run_filter h (b\<lparr>filter_p := Some (chained (filter_p b) flt arg)\<rparr>) v bp =
   and_then (run_filter h b v bp) (\<lambda>v'. call_filter h flt v' arg)"
  by (auto simp: run_filter_def chained_def and_then_def split: option.splits prod.splits sum.splits)

lemma addFilter_clear: "addFilter seg b = Inr b' \<Longrightarrow> b'\<lparr>filter_p := None\<rparr> = b\<lparr>filter_p := None\<rparr>"
  by (auto simp: addFilter_def split: option.splits)

lemma addFilter_any: "addFilter seg b = Inr b' \<Longrightarrow> \<exists>b1. addFilter seg b0 = Inr b1"
  by (auto simp: addFilter_def split: option.splits)

lemma addFilters_clear: "addFilters segs b = Inr b' \<Longrightarrow> b'\<lparr>filter_p := None\<rparr> = b\<lparr>filter_p := None\<rparr>"
proof (induction segs arbitrary: b)
  case Nil then show ?case by simp
next
  case (Cons s segs)
  then obtain b1 where 1: "addFilter s b = Inr b1" and 2: "addFilters segs b1 = Inr b'"
    by (auto split: sum.splits)
  from Cons.IH[OF 2] addFilter_clear[OF 1] show ?case by simp
qed

lemma addFilters_any: "addFilters segs b = Inr b' \<Longrightarrow> \<exists>b1. addFilters segs b0 = Inr b1"
proof (induction segs arbitrary: b b0)
  case Nil then show ?case by simp
next
  case (Cons s segs)
  then obtain b1 where 1: "addFilter s b = Inr b1" and 2: "addFilters segs b1 = Inr b'"
    by (auto split: sum.splits)
  from addFilter_any[OF 1] obtain c1 where 3: "addFilter s b0 = Inr c1" by blast
  from Cons.IH[OF 2] obtain c where "addFilters segs c1 = Inr c" by blast
  with 3 show ?case by simp
qed

lemma addFilter_run: "addFilter seg b = Inr b' \<Longrightarrow> addFilter seg (b\<lparr>filter_p := None\<rparr>) = Inr c \<Longrightarrow>
  run_filter h b' v bp = and_then (run_filter h b v bp) (\<lambda>v'. run_filter h c v' bp)"
  by (auto simp: addFilter_def run_chained  split: option.splits) (simp add: run_filter_def chained_def)

lemma addFilters_run:
  "addFilters ys bx = Inr b \<Longrightarrow>
   \<exists>by. addFilters ys (bx\<lparr>filter_p := None\<rparr>) = Inr by \<and>
     (\<forall>h v bp. run_filter h b v bp = and_then (run_filter h bx v bp) (\<lambda>v'. run_filter h by v' bp))"
proof (induction ys arbitrary: bx b)
  case Nil
  then show ?case by (simp add: run_filter_def and_then_return)
next
  case (Cons y ys)
  then obtain b1 where 1: "addFilter y bx = Inr b1" and 2: "addFilters ys b1 = Inr b"
    by (auto split: sum.splits)
  from addFilter_any[OF 1] obtain c1 where 3: "addFilter y (bx\<lparr>filter_p := None\<rparr>) = Inr c1"
    by blast
  from addFilters_any[OF 2] obtain c where 4: "addFilters ys c1 = Inr c" by blast
  have clear: "c1\<lparr>filter_p := None\<rparr> = b1\<lparr>filter_p := None\<rparr>"
    using addFilter_clear[OF 1] addFilter_clear[OF 3] by simp
  from Cons.IH[OF 2] obtain r where r: "addFilters ys (b1\<lparr>filter_p := None\<rparr>) = Inr r"
    and rb: "\<And>h v bp. run_filter h b v bp = and_then (run_filter h b1 v bp) (\<lambda>v'. run_filter h r v' bp)"
    by blast
  from Cons.IH[OF 4] clear r
  have rc: "\<And>h v bp. run_filter h c v bp = and_then (run_filter h c1 v bp) (\<lambda>v'. run_filter h r v' bp)"
    by auto
  have "run_filter h b v bp = and_then (run_filter h bx v bp) (\<lambda>v'. run_filter h c v' bp)" for h v bp
    by (simp add: rb rc addFilter_run[OF 1 3] and_then_assoc)
  with 3 4 show ?case by simp
qed

lemma addFilters_append:
  "addFilters (xs @ ys) b = (case addFilters xs b of Inl e \<Rightarrow> Inl e | Inr bx \<Rightarrow> addFilters ys bx)"
  by (induction xs arbitrary: b) (auto split: sum.splits)

lemma addFilters_order:
  assumes "addFilters (xs @ ys) self = Inr b"
  shows "\<exists>bx by. addFilters xs self = Inr bx \<and> addFilters ys (self\<lparr>filter_p := None\<rparr>) = Inr by \<and>
      (\<forall>h v bp. run_filter h b v bp = and_then (run_filter h bx v bp) (\<lambda>v'. run_filter h by v' bp))"
proof -
  from assms obtain bx where 1: "addFilters xs self = Inr bx" and 2: "addFilters ys bx = Inr b"
    by (auto simp: addFilters_append split: sum.splits)
  from addFilters_run[OF 2] addFilters_clear[OF 1] 1 show ?thesis by auto
qed

text \<open>
  C4. The binding \<^verbatim>\<open>"count|i|dec(2)"\<close> on a bound parent whose \<^verbatim>\<open>count\<close> is \<open>3.7\<close> reads the
  string \<^verbatim>\<open>"4.00"\<close>: the int filter gives \<open>4\<close>, and \<^verbatim>\<open>dec(2)\<close> formats \<open>4\<close> with two
  decimals. In general the filter chained from the segments \<open>xs @ ys\<close> is the filter of
  \<open>xs\<close> followed by the filter of \<open>ys\<close>: the segments are applied from left to right.
\<close>

theorem count_int_dec_pipeline:
  assumes "get_property boundParent ''count'' = Inr (JNum (Dec 37 1))"
  shows "(case Binding_ctor n (Some ''count|i|dec(2)'') d of
            Inl e \<Rightarrow> False
          | Inr b \<Rightarrow> getValue h b boundParent None = (Inr (JStr ''4.00''), [])) \<and>
         call_filter h F_intFormatter (JNum (Dec 37 1)) JUndefined = (Inr (JNum (Dec 4 0)), []) \<and>
         call_filter h F_decimalFormatter (JNum (Dec 4 0)) (JStr ''2'') = (Inr (JStr ''4.00''), []) \<and>
         (\<forall>xs ys self b. addFilters (xs @ ys) self = Inr b \<longrightarrow>
            (\<exists>bx by. addFilters xs self = Inr bx \<and>
               addFilters ys (self\<lparr>filter_p := None\<rparr>) = Inr by \<and>
               (\<forall>v bp. run_filter h b v bp =
                  and_then (run_filter h bx v bp) (\<lambda>v'. run_filter h by v' bp))))"
proof -
  have scen: "(case Binding_ctor n (Some ''count|i|dec(2)'') d of
            Inl e \<Rightarrow> False
          | Inr b \<Rightarrow> getValue h b boundParent None = (Inr (JStr ''4.00''), []))"
    using assms
    by (simp add: Binding_ctor_def addFilter_def filter_name_def filter_arg_def has_arg_def
        chained_def indexOf_def filters_get_def Binding_filters_def getValue_def call_filter_def
        intFormatter_def formatNotUndefined_def parseFloat_def decimalFormatter_def num_eval)
  have i: "call_filter h F_intFormatter (JNum (Dec 37 1)) JUndefined = (Inr (JNum (Dec 4 0)), [])"
    by (simp add: call_filter_def intFormatter_def formatNotUndefined_def parseFloat_def num_eval)
  have d: "call_filter h F_decimalFormatter (JNum (Dec 4 0)) (JStr ''2'') = (Inr (JStr ''4.00''), [])"
    by (simp add: call_filter_def decimalFormatter_def num_eval)
  have law: "\<forall>xs ys self b. addFilters (xs @ ys) self = Inr b \<longrightarrow>
            (\<exists>bx by. addFilters xs self = Inr bx \<and>
               addFilters ys (self\<lparr>filter_p := None\<rparr>) = Inr by \<and>
               (\<forall>v bp. run_filter h b v bp =
                  and_then (run_filter h bx v bp) (\<lambda>v'. run_filter h by v' bp)))"
  proof (intro allI impI)
    fix xs ys self b
    assume "addFilters (xs @ ys) self = Inr b"
    from addFilters_order[OF this] show "\<exists>bx by. addFilters xs self = Inr bx \<and>
               addFilters ys (self\<lparr>filter_p := None\<rparr>) = Inr by \<and>
               (\<forall>v bp. run_filter h b v bp =
                  and_then (run_filter h bx v bp) (\<lambda>v'. run_filter h by v' bp))"
      by blast
  qed
  from scen i d law show ?thesis by (intro conjI)
qed

text \<open>The scenario on a concrete bound parent, and the order law for the two segments.\<close>

theorem count_int_dec_pipeline_witness:
  "get_property count_parent ''count'' = Inr (JNum (Dec 37 1)) \<and>
   (case Binding_ctor 16 (Some ''count|i|dec(2)'') JUndefined of
      Inl e \<Rightarrow> False
    | Inr b \<Rightarrow> getValue null_host b count_parent None = (Inr (JStr ''4.00''), [])) \<and>
   (\<exists>b bx by. addFilters ([''i''] @ [''dec(2)'']) count_binding = Inr b \<and>
      addFilters [''i''] count_binding = Inr bx \<and>
      addFilters [''dec(2)''] (count_binding\<lparr>filter_p := None\<rparr>) = Inr by \<and>
      run_filter null_host b (JNum (Dec 37 1)) count_parent =
        and_then (run_filter null_host bx (JNum (Dec 37 1)) count_parent)
          (\<lambda>v'. run_filter null_host by v' count_parent))"
proof -
  have p: "get_property count_parent ''count'' = Inr (JNum (Dec 37 1))"
    by (simp add: get_property_def count_parent_def)
  obtain b where b: "addFilters ([''i''] @ [''dec(2)'']) count_binding = Inr b"
    by (simp add: addFilter_def filter_name_def filter_arg_def has_arg_def
        indexOf_def filters_get_def Binding_filters_def trim_def is_ws_def Let_def)
  from count_int_dec_pipeline[OF p, where n=16 and d=JUndefined and h=null_host] 
  have "\<exists>bx by. addFilters [''i''] count_binding = Inr bx \<and>
      addFilters [''dec(2)''] (count_binding\<lparr>filter_p := None\<rparr>) = Inr by \<and>
      (\<forall>v bp. run_filter null_host b v bp =
        and_then (run_filter null_host bx v bp) (\<lambda>v'. run_filter null_host by v' bp))"
    and "(case Binding_ctor 16 (Some ''count|i|dec(2)'') JUndefined of
      Inl e \<Rightarrow> False
    | Inr b \<Rightarrow> getValue null_host b count_parent None = (Inr (JStr ''4.00''), []))"
    using b by blast+
  with p b show ?thesis
    by blast
qed

subsection \<open>The top property is read directly\<close>





section \<open>Properties of Bound.updateComponents\<close>

text \<open>
  C2, as amended. For a Bound with at least one consumer and no parent, after a call of
  \<^verbatim>\<open>updateComponents\<close> that read a value, a further call whose recomputed value is strictly
  equal (\<^verbatim>\<open>===\<close>) to the cached last value calls no update hook: the events of the call
  are the read and what the reader itself caused, and the Bound is unchanged. The reader of
  the second call may be any (the bound parent may have changed in between).
\<close>

theorem updateComponents_short_circuit:
  assumes "components b \<noteq> []" and "parent b = None"
    and "reader b v = (Inr x, ev)"
    and "updateComponents v b = (r, b1, ev1)"
    and "rd v' = (Inr x', ev')"
    and "strict_eq (lastValue b1) x'"
  shows "updateComponents v' (with_reader rd b1) =
           (None, with_reader rd b1, ReaderRead v' # ev') \<and>
         updatedValue b1 = Some True \<and>
         (lastValue b1 = x \<or> lastValue b1 = lastValue b \<and> strict_eq (lastValue b) x)"
proof -
  obtain bnd cs par upd lastv rd0 where b: "b = Bound bnd cs par upd lastv rd0"
    by (cases b)
  with assms(1-3) have cs: "cs \<noteq> []" and par: "par = None" and rd0: "rd0 v = (Inr x, ev)"
    by simp_all
  from assms(4) b cs par rd0
  have b1: "components b1 = cs \<and> parent b1 = None \<and> updatedValue b1 = Some True \<and>
      (lastValue b1 = x \<or> lastValue b1 = lastv \<and> strict_eq lastv x)"
    by (auto split: if_splits)
  with cs assms(5,6) b show ?thesis
    by (simp add: with_reader_def)
qed

text \<open>
  C2 as stated fails where the unchanged value is not strictly equal to itself. The binding
  \<^verbatim>\<open>"count|n"\<close> on a parent whose \<^verbatim>\<open>count\<close> is \<^verbatim>\<open>"abc"\<close> reads \<open>NaN\<close>; the first call
  caches it, the second call reads \<open>NaN\<close> again and calls the consumer's hook again.
\<close>

theorem nan_counterexample:
  "Binding_ctor 18 (Some ''count|n'') JUndefined = Inr nan_binding \<and>
   components nan_bound \<noteq> [] \<and> parent nan_bound = None \<and>
   updateComponents None nan_bound =
     (None, nan_bound_updated, [ReaderRead None, Update 1 (JNum NaN)]) \<and>
   reader nan_bound_updated None = (Inr (JNum NaN), []) \<and>
   lastValue nan_bound_updated = JNum NaN \<and>
   updateComponents None nan_bound_updated =
     (None, nan_bound_updated, [ReaderRead None, Update 1 (JNum NaN)])"
proof -
  have b: "Binding_ctor 18 (Some ''count|n'') JUndefined = Inr nan_binding"
    by (simp add: Binding_ctor_def nan_binding_def addFilter_def filter_name_def filter_arg_def
        has_arg_def indexOf_def filters_get_def Binding_filters_def trim_def is_ws_def Let_def)
  have r: "getValue null_host nan_binding text_parent None = (Inr (JNum NaN), [])"
    by (simp add: getValue_def nan_binding_def text_parent_def get_property_def chained_def
        call_filter_def floatFormatter_def formatNotUndefined_def parseFloat_def num_eval)
  have u: "uid nan_binding = 18"
    by (simp add: nan_binding_def)
  have 1: "updateComponents None nan_bound =
     (None, nan_bound_updated, [ReaderRead None, Update 1 (JNum NaN)])"
    by (simp add: nan_bound_def nan_bound_updated_def r u quiet_component_def quiet_hook_def)
  have 2: "updateComponents None nan_bound_updated =
     (None, nan_bound_updated, [ReaderRead None, Update 1 (JNum NaN)])"
    by (simp add: nan_bound_updated_def r u quiet_component_def quiet_hook_def)
  from b r 1 2 show ?thesis
    by (simp add: nan_bound_def nan_bound_updated_def)
qed

lemma count_reader:
  "getValue null_host count_binding count_parent hint =
     (Inr (case hint of None \<Rightarrow> JNum (Dec 37 1) | Some x \<Rightarrow> x), [])"
  by (simp add: getValue_def count_binding_def count_parent_def get_property_def
      split: option.splits)

text \<open>
  A first call that delivers \<open>3.7\<close> to the consumers, then a call with the hint \<open>3.70\<close>,
  which is strictly equal to the cached value: no hook is called.
\<close>

theorem updateComponents_short_circuit_witness:
  "components three_bound \<noteq> [] \<and> parent three_bound = None \<and>
   reader three_bound None = (Inr (JNum (Dec 37 1)), []) \<and>
   updates (snd (snd (updateComponents None three_bound))) =
     [(1, JNum (Dec 37 1)), (3, JNum (Dec 37 1))] \<and>
   strict_eq (lastValue (fst (snd (updateComponents None three_bound)))) (JNum (Dec 370 2)) \<and>
   updateComponents (Some (JNum (Dec 370 2)))
       (with_reader (reader three_bound) (fst (snd (updateComponents None three_bound)))) =
     (None, with_reader (reader three_bound) (fst (snd (updateComponents None three_bound))),
      [ReaderRead (Some (JNum (Dec 370 2)))])"
proof -
  have 1: "components three_bound \<noteq> []" "parent three_bound = None"
    by (simp_all add: three_bound_def)
  have 2: "reader three_bound None = (Inr (JNum (Dec 37 1)), [])"
    by (simp add: three_bound_def count_reader)
  have 3: "reader three_bound (Some (JNum (Dec 370 2))) = (Inr (JNum (Dec 370 2)), [])"
    by (simp add: three_bound_def count_reader)
  have u: "uid count_binding = 16"
    by (simp add: count_binding_def)
  have 4: "updateComponents None three_bound =
     (None, Bound count_binding [failing_component, hookless_component, sound_component]
        None (Some True) (JNum (Dec 37 1)) (getValue null_host count_binding count_parent),
      [ReaderRead None, Update 1 (JNum (Dec 37 1)), Unhandled (Error ''hook failed''),
       Unhandled (Err Binding_NoComponent None), Update 3 (JNum (Dec 37 1))])"
    by (simp add: three_bound_def count_reader u failing_component_def hookless_component_def
        sound_component_def failing_hook_def quiet_hook_def err_def)
  have 5: "strict_eq (lastValue (fst (snd (updateComponents None three_bound)))) (JNum (Dec 370 2))"
    by (simp add: 4)
  have 6: "updateComponents None three_bound =
      (fst (updateComponents None three_bound), fst (snd (updateComponents None three_bound)),
       snd (snd (updateComponents None three_bound)))"
    by simp
  from updateComponents_short_circuit[where rd = "reader three_bound"
      and v' = "Some (JNum (Dec 370 2))", OF 1 2 6 3 5]
  have "updateComponents (Some (JNum (Dec 370 2)))
       (with_reader (reader three_bound) (fst (snd (updateComponents None three_bound)))) =
     (None, with_reader (reader three_bound) (fst (snd (updateComponents None three_bound))),
      [ReaderRead (Some (JNum (Dec 370 2)))])"
    by simp
  with 1 2 5 show ?thesis by (simp add: 4)
qed

lemma updates_append: "updates (xs @ ys) = updates xs @ updates ys"
  by (induction xs rule: updates.induct) simp_all

lemma unhandled_append: "unhandled (xs @ ys) = unhandled xs @ unhandled ys"
  by (induction xs rule: unhandled.induct) simp_all

lemma updates_notify:
  "updates (notify i x cs) =
     map (\<lambda>c. (cid c, x)) (filter (\<lambda>c. map_of (hooks c) i \<noteq> None) cs)"
  by (induction cs) (auto simp: updates_append split: option.splits)

lemma unhandled_notify:
  "unhandled (notify i x cs) =
     concat (map (\<lambda>c. case map_of (hooks c) i of
                    None \<Rightarrow> [err Binding_NoComponent None]
                  | Some hook \<Rightarrow> (case hook x of None \<Rightarrow> [] | Some e \<Rightarrow> [e])) cs)"
  by (induction cs) (auto simp: unhandled_append split: option.splits)

text \<open>
  C3. When the value has changed and the Bound has no parent, \<^verbatim>\<open>updateComponents\<close> returns
  without an error, whatever the hooks do. Its events are the read, then the loop over the
  consumers: every consumer that has the hook is called with the new value, in the order
  of the list, and the error of every consumer whose hook throws or is missing goes to the
  unhandled-exception log.
\<close>

theorem updateComponents_isolates_hooks:
  assumes "parent b = None" and "components b \<noteq> []"
    and "reader b v = (Inr x, ev)"
    and "updatedValue b \<noteq> Some True \<or> \<not> strict_eq (lastValue b) x"
  shows "updateComponents v b =
           (None,
            Bound (binding b) (components b) None (Some True) x (reader b),
            ReaderRead v # ev @ notify (uid (binding b)) x (components b)) \<and>
         updates (notify (uid (binding b)) x (components b)) =
           map (\<lambda>c. (cid c, x))
             (filter (\<lambda>c. map_of (hooks c) (uid (binding b)) \<noteq> None) (components b)) \<and>
         unhandled (notify (uid (binding b)) x (components b)) =
           concat (map (\<lambda>c. case map_of (hooks c) (uid (binding b)) of
                          None \<Rightarrow> [err Binding_NoComponent None]
                        | Some hook \<Rightarrow> (case hook x of None \<Rightarrow> [] | Some e \<Rightarrow> [e]))
                     (components b))"
proof -
  obtain bnd cs par upd lastv rd where b: "b = Bound bnd cs par upd lastv rd"
    by (cases b)
  with assms have "updateComponents v b =
           (None, Bound bnd cs None (Some True) x rd, ReaderRead v # ev @ notify (uid bnd) x cs)"
    by auto
  with b show ?thesis
    by (simp add: updates_notify unhandled_notify)
qed

text \<open>
  Three consumers: the hook of the first throws, the second has none, the third is called
  all the same.
\<close>

theorem updateComponents_isolates_hooks_witness:
  "parent three_bound = None \<and> components three_bound \<noteq> [] \<and>
   reader three_bound None = (Inr (JNum (Dec 37 1)), []) \<and>
   updatedValue three_bound = None \<and>
   fst (updateComponents None three_bound) = None \<and>
   updates (snd (snd (updateComponents None three_bound))) =
     [(1, JNum (Dec 37 1)), (3, JNum (Dec 37 1))] \<and>
   unhandled (snd (snd (updateComponents None three_bound))) =
     [Error ''hook failed'', Err Binding_NoComponent None]"
proof -
  have 1: "parent three_bound = None" "components three_bound \<noteq> []"
    by (simp_all add: three_bound_def)
  have 2: "reader three_bound None = (Inr (JNum (Dec 37 1)), [])"
    by (simp add: three_bound_def count_reader)
  have 3: "updatedValue three_bound = None"
    by (simp add: three_bound_def)
  then have 4: "updatedValue three_bound \<noteq> Some True \<or>
      \<not> strict_eq (lastValue three_bound) (JNum (Dec 37 1))"
    by simp
  have c: "components three_bound = [failing_component, hookless_component, sound_component]"
    by (simp add: three_bound_def)
  have u: "uid (binding three_bound) = 16"
    by (simp add: three_bound_def count_binding_def)
  from updateComponents_isolates_hooks[OF 1 2 4]
  have "updateComponents None three_bound =
           (None,
            Bound (binding three_bound) (components three_bound) None (Some True)
              (JNum (Dec 37 1)) (reader three_bound),
            ReaderRead None # [] @ notify (uid (binding three_bound)) (JNum (Dec 37 1))
              (components three_bound))"
    by blast
  with 1 2 3 show ?thesis
    by (simp add: c u failing_component_def hookless_component_def
        sound_component_def failing_hook_def quiet_hook_def err_def)
qed

text \<open>
  C5. A Bound without consumers and without a parent is only invalidated by
  \<^verbatim>\<open>updateComponents\<close>: no event happens (the reader is not read, no hook is called),
  \<^verbatim>\<open>hasValue()\<close> is false afterwards and the stored last value stays.
\<close>

theorem updateComponents_detached:
  assumes "components b = []" and "parent b = None"
  shows "updateComponents v b =
           (None, Bound (binding b) [] None (Some False) (lastValue b) (reader b), []) \<and>
         hasValue (fst (snd (updateComponents v b))) = False \<and>
         lastValue (fst (snd (updateComponents v b))) = lastValue b \<and>
         reads (snd (snd (updateComponents v b))) = [] \<and>
         updates (snd (snd (updateComponents v b))) = []"
proof -
  obtain bnd cs par upd lastv rd where b: "b = Bound bnd cs par upd lastv rd"
    by (cases b)
  with assms show ?thesis
    by (simp add: hasValue_def)
qed

text \<open>A detached Bound that had a cached value.\<close>

theorem updateComponents_detached_witness:
  "components detached_bound = [] \<and> parent detached_bound = None \<and>
   hasValue detached_bound = True \<and>
   updateComponents None detached_bound =
     (None, Bound count_binding [] None (Some False) (JNum (Dec 37 1))
        (getValue null_host count_binding count_parent), []) \<and>
   hasValue (fst (snd (updateComponents None detached_bound))) = False \<and>
   lastValue (fst (snd (updateComponents None detached_bound))) = JNum (Dec 37 1)"
proof -
  have 1: "components detached_bound = []" "parent detached_bound = None"
    by (simp_all add: detached_bound_def)
  from updateComponents_detached[OF 1, of None] 1 show ?thesis
    by (simp add: detached_bound_def hasValue_def)
qed

section \<open>Properties of the service registry\<close>

lemma set_target_services [simp]: "services (set_target r s c) = services c"
  by (simp add: set_target_def split: option.splits)

lemma set_target_next [simp]: "next_ref (set_target r s c) = next_ref c"
  by (simp add: set_target_def split: option.splits)

lemma set_target_refs:
  "refs c r = Some ref \<Longrightarrow> refs (set_target r s c) = (refs c)(r \<mapsto> ref\<lparr>target := Some s\<rparr>)"
  by (simp add: set_target_def)

lemma set_target_ok: "container_ok c \<Longrightarrow> container_ok (set_target r s c)"
  by (auto simp: container_ok_def set_target_def split: option.splits)

lemma new_reference_ok: "container_ok c \<Longrightarrow> container_ok (new_reference k t c)"
  by (auto simp: container_ok_def new_reference_def less_Suc_eq)

lemma register_ok: "container_ok c \<Longrightarrow> register toUpperCase s c = Inr c' \<Longrightarrow> container_ok c'"
  by (auto simp: register_def Let_def set_target_ok new_reference_ok split: if_splits option.splits)

lemma register_slot:
  assumes "container_ok c" and "toUpperCase (name s) \<noteq> []"
  shows "\<exists>c' r ref. register toUpperCase s c = Inr c' \<and>
           services c' (toUpperCase (name s)) = Some r \<and>
           refs c' r = Some ref \<and> target ref = Some s \<and>
           (case services c (toUpperCase (name s)) of
              Some r0 \<Rightarrow> r = r0 \<and> services c' = services c
            | None \<Rightarrow> r = next_ref c \<and>
                c' = new_reference (toUpperCase (name s)) (Some s) c)"
proof (cases "services c (toUpperCase (name s))")
  case None
  with assms show ?thesis
    by (simp add: register_def new_reference_def)
next
  case (Some r0)
  with assms(1) obtain ref0 where "refs c r0 = Some ref0"
    by (auto simp: container_ok_def)
  with Some assms show ?thesis
    by (simp add: register_def set_target_def)
qed

text \<open>
  C7, as amended. The theorem holds for every conversion \<open>toUpperCase\<close>; two names are equal
  up to case when it gives them the same key, and a name is blank when its key is the empty
  string, which is the test \<^verbatim>\<open>!ucName\<close> of the code. In a container in a regular state,
  for two services whose names are equal up to case and not blank: both registrations
  succeed; the second one leaves the map of slots as it is and replaces the target of the
  slot the first one used, so that the reference of that slot (the one a property decorated
  with the name reads through) reads the second service, \<^verbatim>\<open>find\<close> returns the second
  service for every casing of the name, and the first service is destroyed (unless it is
  the same object). A registration under a name that is not blank and has no slot stores a
  new restricted reference to the service under the uppercased name; the reference is a
  new object. A service whose name is blank is not registered: \<^verbatim>\<open>register\<close> throws.
\<close>

theorem register_replaces_target:
  assumes "container_ok c"
  shows "(\<forall>s1 s2. toUpperCase (name s1) = toUpperCase (name s2) \<longrightarrow>
           toUpperCase (name s1) \<noteq> [] \<longrightarrow>
           (\<exists>c1 c2 r. register toUpperCase s1 c = Inr c1 \<and>
              register toUpperCase s2 c1 = Inr c2 \<and>
              services c1 (toUpperCase (name s1)) = Some r \<and>
              services c2 = services c1 \<and>
              next_ref c2 = next_ref c1 \<and>
              read_reference r c1 = Some s1 \<and>
              read_reference r c2 = Some s2 \<and>
              (\<forall>n. toUpperCase n = toUpperCase (name s1) \<longrightarrow>
                 find_service toUpperCase n c2 = Some s2 \<and>
                 service_decorator toUpperCase n c1 = (r, c1) \<and>
                 service_decorator toUpperCase n c2 = (r, c2)) \<and>
              (sid s1 = sid s2 \<or> sid s1 \<in> destroyed c2) \<and>
              container_ok c2)) \<and>
         (\<forall>s. services c (toUpperCase (name s)) = None \<longrightarrow> toUpperCase (name s) \<noteq> [] \<longrightarrow>
           (\<exists>c1. register toUpperCase s c = Inr c1 \<and>
              services c1 = (services c)(toUpperCase (name s) \<mapsto> next_ref c) \<and>
              refs c1 = (refs c)(next_ref c \<mapsto>
                 \<lparr>target = Some s, restricted = True, propagating = True\<rparr>) \<and>
              next_ref c1 = Suc (next_ref c) \<and>
              (\<forall>k. services c k \<noteq> Some (next_ref c)))) \<and>
         (\<forall>s. toUpperCase (name s) = [] \<longrightarrow>
            register toUpperCase s c = Inl (Error ''[Service] Service name cannot be blank''))"
proof (intro conjI allI impI)
  fix s1 s2 :: service
  assume eq: "toUpperCase (name s1) = toUpperCase (name s2)" and ne: "toUpperCase (name s1) \<noteq> []"
  from register_slot[where toUpperCase = toUpperCase and s = s1, OF assms ne] obtain c1 r ref where
    1: "register toUpperCase s1 c = Inr c1" and 2: "services c1 (toUpperCase (name s1)) = Some r"
    and 3: "refs c1 r = Some ref" and 4: "target ref = Some s1"
    by blast
  have ok1: "container_ok c1"
    using assms 1 by (rule register_ok)
  let ?c2 = "set_target r s2 c1"
  from 2 eq ne have 5: "register toUpperCase s2 c1 = Inr ?c2"
    by (simp add: register_def)
  have 6: "refs ?c2 r = Some (ref\<lparr>target := Some s2\<rparr>)"
    using 3 by (simp add: set_target_refs)
  have 7: "find_service toUpperCase n ?c2 = Some s2 \<and>
      service_decorator toUpperCase n c1 = (r, c1) \<and>
      service_decorator toUpperCase n ?c2 = (r, ?c2)"
    if "toUpperCase n = toUpperCase (name s1)" for n
    using that 2 6 by (simp add: find_service_def service_decorator_def)
  have 8: "sid s1 = sid s2 \<or> sid s1 \<in> destroyed ?c2"
    using 3 4 by (simp add: set_target_def)
  have 9: "container_ok ?c2"
    using ok1 by (rule set_target_ok)
  show "\<exists>c1 c2 r. register toUpperCase s1 c = Inr c1 \<and>
              register toUpperCase s2 c1 = Inr c2 \<and>
              services c1 (toUpperCase (name s1)) = Some r \<and>
              services c2 = services c1 \<and>
              next_ref c2 = next_ref c1 \<and>
              read_reference r c1 = Some s1 \<and>
              read_reference r c2 = Some s2 \<and>
              (\<forall>n. toUpperCase n = toUpperCase (name s1) \<longrightarrow>
                 find_service toUpperCase n c2 = Some s2 \<and>
                 service_decorator toUpperCase n c1 = (r, c1) \<and>
                 service_decorator toUpperCase n c2 = (r, c2)) \<and>
              (sid s1 = sid s2 \<or> sid s1 \<in> destroyed c2) \<and>
              container_ok c2"
    using 1 2 3 4 5 6 7 8 9
    by (intro exI[of _ c1] exI[of _ ?c2] exI[of _ r]) (simp add: read_reference_def)
next
  fix s :: service
  assume none: "services c (toUpperCase (name s)) = None" and ne: "toUpperCase (name s) \<noteq> []"
  have fresh: "services c k \<noteq> Some (next_ref c)" for k
    using assms by (auto simp: container_ok_def)
  from none ne fresh show "\<exists>c1. register toUpperCase s c = Inr c1 \<and>
              services c1 = (services c)(toUpperCase (name s) \<mapsto> next_ref c) \<and>
              refs c1 = (refs c)(next_ref c \<mapsto>
                 \<lparr>target = Some s, restricted = True, propagating = True\<rparr>) \<and>
              next_ref c1 = Suc (next_ref c) \<and>
              (\<forall>k. services c k \<noteq> Some (next_ref c))"
    by (simp add: register_def new_reference_def)
next
  fix s :: service
  assume "toUpperCase (name s) = []"
  then show "register toUpperCase s c = Inl (Error ''[Service] Service name cannot be blank'')"
    by (simp add: register_def)
qed

text \<open>
  C7 as stated fails for the blank name: the registrations of two services named by the
  empty string throw and leave the container as it is, and \<^verbatim>\<open>find\<close> returns \<^verbatim>\<open>undefined\<close>.
\<close>

theorem blank_name_counterexample:
  "toUpperCase_ascii (name blank_service) = toUpperCase_ascii (name blank_service_2) \<and>
   container_ok empty_container \<and>
   register toUpperCase_ascii blank_service empty_container =
     Inl (Error ''[Service] Service name cannot be blank'') \<and>
   register toUpperCase_ascii blank_service_2 empty_container =
     Inl (Error ''[Service] Service name cannot be blank'') \<and>
   find_service toUpperCase_ascii (name blank_service) empty_container = None"
  by (simp add: blank_service_def blank_service_2_def toUpperCase_ascii_def register_def
      find_service_def container_ok_def empty_container_def)

text \<open>
  Two services named \<^verbatim>\<open>App.Mail\<close> and \<^verbatim>\<open>app.mail\<close>, registered in the empty container, with
  the conversion of ASCII names.
\<close>

theorem register_replaces_target_witness:
  "container_ok empty_container \<and>
   toUpperCase_ascii (name mail_service) = toUpperCase_ascii (name mail_service_2) \<and>
   toUpperCase_ascii (name mail_service) = ''APP.MAIL'' \<and>
   services empty_container (toUpperCase_ascii (name mail_service)) = None \<and>
   (\<exists>c1 c2. register toUpperCase_ascii mail_service empty_container = Inr c1 \<and>
      register toUpperCase_ascii mail_service_2 c1 = Inr c2 \<and>
      services c1 ''APP.MAIL'' = Some 0 \<and>
      services c2 = services c1 \<and>
      read_reference 0 c1 = Some mail_service \<and>
      read_reference 0 c2 = Some mail_service_2 \<and>
      find_service toUpperCase_ascii ''App.MAIL'' c2 = Some mail_service_2 \<and>
      sid mail_service \<in> destroyed c2)"
proof -
  have ok: "container_ok empty_container"
    by (simp add: container_ok_def empty_container_def)
  have u1: "toUpperCase_ascii (name mail_service) = ''APP.MAIL''"
    by (simp add: toUpperCase_ascii_def upper_char_def mail_service_def)
  have u2: "toUpperCase_ascii (name mail_service_2) = ''APP.MAIL''"
    by (simp add: toUpperCase_ascii_def upper_char_def mail_service_2_def)
  have u3: "toUpperCase_ascii ''App.MAIL'' = ''APP.MAIL''"
    by (simp add: toUpperCase_ascii_def upper_char_def)
  have none: "services empty_container (toUpperCase_ascii (name mail_service)) = None"
    by (simp add: empty_container_def)
  have ids: "sid mail_service \<noteq> sid mail_service_2"
    by (simp add: mail_service_def mail_service_2_def)
  note t = register_replaces_target[OF ok, where toUpperCase = toUpperCase_ascii]
  from t u1 u2 obtain c1 c2 r where
    1: "register toUpperCase_ascii mail_service empty_container = Inr c1"
    and 2: "register toUpperCase_ascii mail_service_2 c1 = Inr c2"
    and 3: "services c1 (toUpperCase_ascii (name mail_service)) = Some r"
    and 4: "services c2 = services c1"
    and 5: "read_reference r c1 = Some mail_service"
    and 6: "read_reference r c2 = Some mail_service_2"
    and 7: "\<forall>n. toUpperCase_ascii n = toUpperCase_ascii (name mail_service) \<longrightarrow>
              find_service toUpperCase_ascii n c2 = Some mail_service_2 \<and>
              service_decorator toUpperCase_ascii n c1 = (r, c1) \<and>
              service_decorator toUpperCase_ascii n c2 = (r, c2)"
    and 8: "sid mail_service = sid mail_service_2 \<or> sid mail_service \<in> destroyed c2"
    by (metis list.distinct(1))
  from t none u1 obtain c1' where
    9: "register toUpperCase_ascii mail_service empty_container = Inr c1'"
    and 10: "services c1' = (services empty_container)(toUpperCase_ascii (name mail_service) \<mapsto>
               next_ref empty_container)"
    by (metis list.distinct(1))
  from 1 9 10 3 have r: "r = 0"
    by (simp add: empty_container_def)
  from 7 u1 u3 have f: "find_service toUpperCase_ascii ''App.MAIL'' c2 = Some mail_service_2"
    by simp
  from ok u1 u2 none 1 2 3 4 5 6 f 8 ids r show ?thesis
    by auto
qed

section \<open>Properties of the modal controller\<close>

lemma onModalChange_modal [simp]: "modal (onModalChange env c) = modal c"
  by (simp add: onModalChange_def Let_def split: option.splits)

lemma onModalChange_next [simp]: "next_instance (onModalChange env c) = next_instance c"
  by (simp add: onModalChange_def Let_def split: option.splits)

lemma set_modal_modal [simp]: "modal (set_modal env m c) = m"
  by (simp add: set_modal_def)

lemma set_modal_next [simp]: "next_instance (set_modal env m c) = next_instance c"
  by (simp add: set_modal_def)

lemma onModalChange_ok: "modal_ok c \<Longrightarrow> modal_ok (onModalChange env c)"
  by (auto simp: modal_ok_def onModalChange_def Let_def split: option.splits)

lemma set_modal_ok:
  assumes "modal_ok c" and "case m of None \<Rightarrow> True | Some x \<Rightarrow> instance_id x < next_instance c"
  shows "modal_ok (set_modal env m c)"
proof -
  from assms have "modal_ok (c\<lparr>modal := m\<rparr>)"
    by (auto simp: modal_ok_def split: option.splits)
  then have "modal_ok (onModalChange env (c\<lparr>modal := m\<rparr>))"
    by (rule onModalChange_ok)
  with assms(1) show ?thesis
    by (simp add: set_modal_def)
qed

lemma showModal_ok: "modal_ok c \<Longrightarrow> modal_ok (showModal env c)"
proof (cases "ModalClass_p c")
  case None
  assume "modal_ok c"
  with None show ?thesis by (simp add: showModal_def)
next
  case (Some cls)
  assume ok: "modal_ok c"
  then have "modal_ok (c\<lparr>next_instance := Suc (next_instance c)\<rparr>)"
    by (auto simp: modal_ok_def list_all_iff less_Suc_eq split: option.splits)
  then have "modal_ok (set_modal env (Some \<lparr>class_of = cls, instance_id = next_instance c\<rparr>)
           (c\<lparr>next_instance := Suc (next_instance c)\<rparr>))"
    by (rule set_modal_ok) simp
  with Some show ?thesis by (simp add: showModal_def)
qed

lemma child_event_ok: "modal_ok c \<Longrightarrow> modal_ok (fst (child_event env e c))"
  by (auto simp: child_event_def closeModal_def showModal_ok set_modal_ok split: managed_event.splits)

lemma callbackProxy_ok: "modal_ok c \<Longrightarrow> modal_ok (callbackProxy env out c)"
proof -
  assume ok: "modal_ok c"
  have upd: "modal_ok (c\<lparr>renderCallback_p := Some ch\<rparr>)" for ch
    using ok by (auto simp: modal_ok_def split: option.splits)
  show ?thesis
    by (auto simp: callbackProxy_def Let_def ok upd set_modal_ok split: option.splits)
qed

text \<open>
  C8. For a controller with a preset modal class, in a regular state: the child event
  \<^verbatim>\<open>ShowModal\<close> is handled by \<^verbatim>\<open>showModal\<close> (and not propagated), which sets \<^verbatim>\<open>modal\<close> to
  an instance of the preset class that is newly constructed (it is neither the modal shown
  before nor an instance rendered before); the child event \<^verbatim>\<open>CloseModal\<close> sets \<^verbatim>\<open>modal\<close>
  to \<^verbatim>\<open>undefined\<close>; and once a callback proxy has been handed out, calling it with
  \<^verbatim>\<open>undefined\<close> sets \<^verbatim>\<open>modal\<close> to \<^verbatim>\<open>undefined\<close>. The events and the proxy keep the state
  regular.
\<close>

theorem modal_controller_transitions:
  assumes "modal_ok c"
  shows "(\<forall>cls. ModalClass_p c = Some cls \<longrightarrow>
           child_event env (ComponentEvent ''ShowModal'') c = (showModal env c, None) \<and>
           modal (showModal env c) = Some \<lparr>class_of = cls, instance_id = next_instance c\<rparr> \<and>
           modal (showModal env c) \<noteq> modal c \<and>
           \<not> list_ex (\<lambda>m. instance_id m = next_instance c) (rendered c)) \<and>
         child_event env (ComponentEvent ''CloseModal'') c = (closeModal env c, None) \<and>
         modal (closeModal env c) = None \<and>
         (rendered c \<noteq> [] \<longrightarrow> modal (callbackProxy env None c) = None) \<and>
         modal_ok (fst (child_event env e c)) \<and>
         modal_ok (callbackProxy env out c)"
proof (intro conjI allI impI)
  fix cls
  assume cls: "ModalClass_p c = Some cls"
  show "child_event env (ComponentEvent ''ShowModal'') c = (showModal env c, None)"
    by (simp add: child_event_def)
  from cls show m: "modal (showModal env c) = Some \<lparr>class_of = cls, instance_id = next_instance c\<rparr>"
    by (simp add: showModal_def)
  from assms show "modal (showModal env c) \<noteq> modal c"
    unfolding m by (auto simp: modal_ok_def split: option.splits)
  from assms show "\<not> list_ex (\<lambda>m. instance_id m = next_instance c) (rendered c)"
    by (auto simp: modal_ok_def list_all_iff list_ex_iff)
next
  show "child_event env (ComponentEvent ''CloseModal'') c = (closeModal env c, None)"
    by (simp add: child_event_def)
  show "modal (closeModal env c) = None"
    by (simp add: closeModal_def)
  from assms show "modal_ok (fst (child_event env e c))"
    by (rule child_event_ok)
  from assms show "modal_ok (callbackProxy env out c)"
    by (rule callbackProxy_ok)
next
  assume "rendered c \<noteq> []"
  with assms show "modal (callbackProxy env None c) = None"
    by (auto simp: modal_ok_def callbackProxy_def)
qed

text \<open>
  A new controller with the preset class \<open>7\<close>: \<^verbatim>\<open>ShowModal\<close> shows the instance \<open>0\<close> of the
  class and renders it; the proxy called with \<^verbatim>\<open>undefined\<close>, or \<^verbatim>\<open>CloseModal\<close>, removes
  it.
\<close>

theorem modal_controller_transitions_witness:
  "modal_ok preset_controller \<and>
   ModalClass_p preset_controller = Some 7 \<and>
   modal (fst (child_event full_surroundings (ComponentEvent ''ShowModal'') preset_controller)) =
     Some \<lparr>class_of = 7, instance_id = 0\<rparr> \<and>
   modal_ok (showModal full_surroundings preset_controller) \<and>
   rendered (showModal full_surroundings preset_controller) = [\<lparr>class_of = 7, instance_id = 0\<rparr>] \<and>
   modal (callbackProxy full_surroundings None (showModal full_surroundings preset_controller)) =
     None \<and>
   modal (fst (child_event full_surroundings (ComponentEvent ''CloseModal'')
     (showModal full_surroundings preset_controller))) = None"
proof -
  let ?c = preset_controller and ?env = full_surroundings
  have ok: "modal_ok ?c"
    by (simp add: modal_ok_def preset_controller_def new_controller_def)
  have cls: "ModalClass_p ?c = Some 7"
    by (simp add: preset_controller_def new_controller_def)
  have nxt: "next_instance ?c = 0"
    by (simp add: preset_controller_def new_controller_def)
  note t = modal_controller_transitions[OF ok, of ?env "ComponentEvent ''ShowModal''"]
  from t cls nxt have 1: "child_event ?env (ComponentEvent ''ShowModal'') ?c = (showModal ?env ?c, None)"
    and 2: "modal (showModal ?env ?c) = Some \<lparr>class_of = 7, instance_id = 0\<rparr>"
    by simp_all
  from t 1 have ok1: "modal_ok (showModal ?env ?c)"
    by simp
  have r: "rendered (showModal ?env ?c) = [\<lparr>class_of = 7, instance_id = 0\<rparr>]"
    by (simp add: showModal_def set_modal_def onModalChange_def preset_controller_def
        new_controller_def full_surroundings_def)
  note t1 = modal_controller_transitions[OF ok1, of ?env]
  from t1 r have 3: "modal (callbackProxy ?env None (showModal ?env ?c)) = None"
    by simp
  from t1 have 4: "modal (fst (child_event ?env (ComponentEvent ''CloseModal'')
      (showModal ?env ?c))) = None"
    by simp
  from ok cls 1 2 ok1 r 3 4 show ?thesis
    by simp
qed

end
